theory Spec2Isabelle
  imports Main "HOL-Library.AList"
begin

section \<open>Ruby values and the runtime calls made by the factory\<close>

text \<open>
  The extension is written against Ruby's C interface. A \<open>VALUE\<close> is modelled by the
  values below. Classes, modules and plain objects carry the table of the methods that
  they respond to beyond the built-in ones; each method is listed with the value it
  returns when it is called without arguments (this value is only ever read for
  \<open>to_int\<close> and \<open>to_proc\<close>, the two methods that the code invokes). A class or module
  also lists the names of its instance-level methods. A hash carries its entries and its
  default value (\<open>RNil\<close> for a hash made by \<open>{}\<close>). Floats are not represented.
\<close>

datatype rvalue =
    RNil
  | RInteger int
  | RSymbol string
  | RString string
  | RHash "(rvalue \<times> rvalue) list" rvalue
  | RClass string "(string \<times> rvalue) list" "string list"
  | RModule string "(string \<times> rvalue) list" "string list"
  | RObject nat "(string \<times> rvalue) list"
  | RProc nat
  | RSymProc string
  | RMethod rvalue string
  | RMethodProc rvalue string

datatype ruby_type =
    T_NIL | T_FIXNUM | T_BIGNUM | T_SYMBOL | T_STRING | T_HASH
  | T_CLASS | T_MODULE | T_OBJECT | T_DATA

datatype exc_class = ArgumentError | RangeError | TypeError | NameError | NoMethodError

datatype message =
    Wrong_number_of_arguments nat string
  | Expected_Hash_but_found rvalue
  | Expected_Class_but_found rvalue
  | Too_big_for_signed_char int
  | NULL_found string
  | No_implicit_conversion_into_Integer rvalue
  | Too_big_to_convert_to_int int
  | Undefined_method string rvalue
  | Not_a_symbol_nor_a_string rvalue

datatype rerror = Raise exc_class message

text \<open>\<open>rb_type\<close>: the built-in type tag of a value. Procs and method objects are
  \<open>T_DATA\<close>; an integer is a fixnum when it fits 63 bits.\<close>

fun rb_type :: "rvalue \<Rightarrow> ruby_type" where
  "rb_type RNil = T_NIL"
| "rb_type (RInteger n) =
     (if - (2 ^ 62) \<le> n \<and> n < 2 ^ 62 then T_FIXNUM else T_BIGNUM)"
| "rb_type (RSymbol s) = T_SYMBOL"
| "rb_type (RString s) = T_STRING"
| "rb_type (RHash es d) = T_HASH"
| "rb_type (RClass n ms ims) = T_CLASS"
| "rb_type (RModule n ms ims) = T_MODULE"
| "rb_type (RObject i ms) = T_OBJECT"
| "rb_type (RProc h) = T_DATA"
| "rb_type (RSymProc s) = T_DATA"
| "rb_type (RMethod r s) = T_DATA"
| "rb_type (RMethodProc r s) = T_DATA"

text \<open>\<open>rb_hash_new\<close> and \<open>rb_hash_aref\<close>: a missing key reads as the hash's default.\<close>

definition rb_hash_new :: rvalue where
  "rb_hash_new = RHash [] RNil"

fun rb_hash_aref :: "rvalue \<Rightarrow> rvalue \<Rightarrow> rvalue" where
  "rb_hash_aref (RHash es d) key = (case map_of es key of Some v \<Rightarrow> v | None \<Rightarrow> d)"
| "rb_hash_aref v key = RNil"

text \<open>The methods a value responds to: its own table, and for procs, method objects and
  symbols the built-in \<open>call\<close> and \<open>to_proc\<close>.\<close>

fun user_methods :: "rvalue \<Rightarrow> (string \<times> rvalue) list" where
  "user_methods (RClass n ms ims) = ms"
| "user_methods (RModule n ms ims) = ms"
| "user_methods (RObject i ms) = ms"
| "user_methods v = []"

fun builtin_methods :: "rvalue \<Rightarrow> string list" where
  "builtin_methods (RProc h) = [''call'', ''to_proc'']"
| "builtin_methods (RSymProc s) = [''call'', ''to_proc'']"
| "builtin_methods (RMethod r s) = [''call'', ''to_proc'']"
| "builtin_methods (RMethodProc r s) = [''call'', ''to_proc'']"
| "builtin_methods (RSymbol s) = [''to_proc'']"
| "builtin_methods v = []"

definition responds_to :: "rvalue \<Rightarrow> string \<Rightarrow> bool" where
  "responds_to v name = (name \<in> set (builtin_methods v) \<or> name \<in> fst ` set (user_methods v))"

text \<open>The built-in \<open>to_proc\<close>: a proc is its own proc, a symbol gives the proc that
  sends the named message to its argument when it is called (nothing is looked up
  before), a method object gives the proc that wraps it.\<close>

fun builtin_to_proc :: "rvalue \<Rightarrow> rvalue option" where
  "builtin_to_proc (RProc h) = Some (RProc h)"
| "builtin_to_proc (RSymProc s) = Some (RSymProc s)"
| "builtin_to_proc (RMethodProc r s) = Some (RMethodProc r s)"
| "builtin_to_proc (RMethod r s) = Some (RMethodProc r s)"
| "builtin_to_proc (RSymbol s) = Some (RSymProc s)"
| "builtin_to_proc v = None"

text \<open>\<open>rb_obj_method(obj, name)\<close> is \<open>obj.method(name)\<close>: the method is looked up on the
  receiver at once, and a receiver without it raises \<open>NameError\<close>.\<close>

fun rb_obj_method :: "rvalue \<Rightarrow> rvalue \<Rightarrow> rerror + rvalue" where
  "rb_obj_method obj (RSymbol s) =
     (if responds_to obj s then Inr (RMethod obj s)
      else Inl (Raise NameError (Undefined_method s obj)))"
| "rb_obj_method obj (RString s) =
     (if responds_to obj s then Inr (RMethod obj s)
      else Inl (Raise NameError (Undefined_method s obj)))"
| "rb_obj_method obj vid = Inl (Raise TypeError (Not_a_symbol_nor_a_string vid))"

text \<open>\<open>rb_funcall(recv, mid, n, ...)\<close> for the two messages the factory sends:
  \<open>method\<close> with one argument, and a message without arguments, which is answered from
  the receiver's own table first and by the built-in \<open>to_proc\<close> otherwise.\<close>

definition rb_funcall :: "rvalue \<Rightarrow> string \<Rightarrow> rvalue list \<Rightarrow> rerror + rvalue" where
  "rb_funcall recv mid args =
     (if mid = ''method'' \<and> length args = 1 then rb_obj_method recv (args ! 0)
      else if args = [] then
        (case map_of (user_methods recv) mid of
           Some r \<Rightarrow> Inr r
         | None \<Rightarrow>
            (if mid = ''to_proc'' then
               (case builtin_to_proc recv of
                  Some p \<Rightarrow> Inr p
                | None \<Rightarrow> Inl (Raise NoMethodError (Undefined_method mid recv)))
             else Inl (Raise NoMethodError (Undefined_method mid recv))))
      else Inl (Raise NoMethodError (Undefined_method mid recv)))"

text \<open>Implicit integer conversion: an Integer is itself, any other value is asked for
  \<open>to_int\<close>, which has to answer an Integer.\<close>

fun to_integer :: "rvalue \<Rightarrow> int option" where
  "to_integer (RInteger n) = Some n"
| "to_integer v =
     (case map_of (user_methods v) ''to_int'' of
        Some (RInteger n) \<Rightarrow> Some n
      | _ \<Rightarrow> None)"

definition INT_MIN :: int where "INT_MIN = - (2 ^ 31)"
definition INT_MAX :: int where "INT_MAX = 2 ^ 31 - 1"

text \<open>\<open>rb_num2int\<close>: \<open>TypeError\<close> for a value with no integer conversion,
  \<open>RangeError\<close> for an integer that does not fit a C \<open>int\<close>.\<close>

definition rb_num2int :: "rvalue \<Rightarrow> rerror + int" where
  "rb_num2int v =
     (case to_integer v of
        None \<Rightarrow> Inl (Raise TypeError (No_implicit_conversion_into_Integer v))
      | Some n \<Rightarrow>
         (if n < INT_MIN \<or> INT_MAX < n then Inl (Raise RangeError (Too_big_to_convert_to_int n))
          else Inr n))"

section \<open>The store of registries\<close>

text \<open>
  A registry is a handle into a store, so that two handles may or may not share storage.
  The store never reuses a handle: storage is appended at allocation and emptied in place
  when it is destroyed.
\<close>

type_synonym addr = nat
type_synonym packer_entries = "(rvalue \<times> int \<times> rvalue) list"
type_synonym unpacker_entries = "(int \<times> rvalue) list"

record world =
  pk_heap :: "packer_entries option list"
  uk_heap :: "unpacker_entries option list"

definition empty_world :: world where
  "empty_world = \<lparr>pk_heap = [], uk_heap = []\<rparr>"

definition pk_live :: "world \<Rightarrow> addr \<Rightarrow> bool" where
  "pk_live w a = (a < length (pk_heap w) \<and> pk_heap w ! a \<noteq> None)"

definition uk_live :: "world \<Rightarrow> addr \<Rightarrow> bool" where
  "uk_live w a = (a < length (uk_heap w) \<and> uk_heap w ! a \<noteq> None)"

definition pk_entries :: "world \<Rightarrow> addr \<Rightarrow> packer_entries" where
  "pk_entries w a =
     (if a < length (pk_heap w) then (case pk_heap w ! a of Some es \<Rightarrow> es | None \<Rightarrow> [])
      else [])"

definition uk_entries :: "world \<Rightarrow> addr \<Rightarrow> unpacker_entries" where
  "uk_entries w a =
     (if a < length (uk_heap w) then (case uk_heap w ! a of Some es \<Rightarrow> es | None \<Rightarrow> [])
      else [])"

text \<open>A computation of the extension runs in a world and either raises or returns; in
  both cases it leaves a world behind.\<close>

type_synonym 'a ruby = "world \<Rightarrow> (rerror + 'a) \<times> world"

definition rb_return :: "'a \<Rightarrow> 'a ruby" where
  "rb_return x = (\<lambda>w. (Inr x, w))"

definition rb_raise :: "exc_class \<Rightarrow> message \<Rightarrow> 'a ruby" where
  "rb_raise c m = (\<lambda>w. (Inl (Raise c m), w))"

definition rb_bind :: "'a ruby \<Rightarrow> ('a \<Rightarrow> 'b ruby) \<Rightarrow> 'b ruby" where
  "rb_bind m f = (\<lambda>w. case m w of (Inl e, w') \<Rightarrow> (Inl e, w') | (Inr x, w') \<Rightarrow> f x w')"

text \<open>A call into the runtime (\<open>rb_num2int\<close>, \<open>rb_funcall\<close>, \<open>rb_obj_method\<close>): it raises
  or returns and leaves the world alone. User code run by \<open>to_int\<close> or \<open>to_proc\<close> is
  thereby taken not to reach back into a factory.\<close>

definition rb_call :: "rerror + 'a \<Rightarrow> 'a ruby" where
  "rb_call r = (\<lambda>w. (r, w))"

subsection \<open>Encode-side registry\<close>

text \<open>The functions of packer_ext_registry.c are not among the sources; each is modelled
  from section 4.1 of the spec, where the registry is an insertion-ordered mapping from
  the associated type to the code and the encode hook.\<close>

text \<open>Modelled from the spec: \<open>msgpack_packer_ext_registry_init\<close> (packer_ext_registry.c is
  missing). "\<open>init()\<close> gives an empty registry", here in storage of its own.\<close>

definition msgpack_packer_ext_registry_init :: "addr ruby" where
  "msgpack_packer_ext_registry_init =
     (\<lambda>w. (Inr (length (pk_heap w)), w\<lparr>pk_heap := pk_heap w @ [Some []]\<rparr>))"

text \<open>Modelled from the spec: \<open>msgpack_packer_ext_registry_put\<close> (packer_ext_registry.c is
  missing). "\<open>put\<close> inserts/overwrites the entry for the associated type. No validation
  here. No side effects beyond the mapping mutation." A \<open>put\<close> on storage that has been
  destroyed is taken to leave it destroyed.\<close>

definition msgpack_packer_ext_registry_put ::
    "addr \<Rightarrow> rvalue \<Rightarrow> int \<Rightarrow> rvalue \<Rightarrow> unit ruby" where
  "msgpack_packer_ext_registry_put a ext_class ext_type proc =
     (\<lambda>w. (Inr (),
        if pk_live w a
        then w\<lparr>pk_heap :=
                 (pk_heap w)[a := Some (AList.update ext_class (ext_type, proc) (pk_entries w a))]\<rparr>
        else w))"

text \<open>Modelled from the spec: \<open>msgpack_packer_ext_registry_dup\<close> (packer_ext_registry.c is
  missing). "\<open>duplicate(source)\<close> produces an independent registry whose entries are
  value-equal to the source's at the time of the call": new storage, the same entries.\<close>

definition msgpack_packer_ext_registry_dup :: "addr \<Rightarrow> addr ruby" where
  "msgpack_packer_ext_registry_dup src =
     (\<lambda>w. (Inr (length (pk_heap w)), w\<lparr>pk_heap := pk_heap w @ [Some (pk_entries w src)]\<rparr>))"

text \<open>Modelled from the spec: \<open>msgpack_packer_ext_registry_destroy\<close> (packer_ext_registry.c
  is missing). "\<open>destroy(registry)\<close> releases all owned references": the storage is
  emptied and its handle is dead from then on.\<close>

definition msgpack_packer_ext_registry_destroy :: "addr \<Rightarrow> unit ruby" where
  "msgpack_packer_ext_registry_destroy a =
     (\<lambda>w. (Inr (), w\<lparr>pk_heap := (pk_heap w)[a := None]\<rparr>))"

subsection \<open>Decode-side registry\<close>

text \<open>The functions of unpacker_ext_registry.c are not among the sources; each is modelled
  from section 4.2 of the spec: "same operation shapes keyed by the code instead of the
  associated type; stores only the decode hook".\<close>

text \<open>Modelled from the spec: \<open>msgpack_unpacker_ext_registry_init\<close> (unpacker_ext_registry.c
  is missing). An empty registry in storage of its own.\<close>

definition msgpack_unpacker_ext_registry_init :: "addr ruby" where
  "msgpack_unpacker_ext_registry_init =
     (\<lambda>w. (Inr (length (uk_heap w)), w\<lparr>uk_heap := uk_heap w @ [Some []]\<rparr>))"

text \<open>Modelled from the spec: \<open>msgpack_unpacker_ext_registry_put\<close> (unpacker_ext_registry.c
  is missing). Inserts or overwrites the entry for the code, and has no other effect.\<close>

definition msgpack_unpacker_ext_registry_put :: "addr \<Rightarrow> int \<Rightarrow> rvalue \<Rightarrow> unit ruby" where
  "msgpack_unpacker_ext_registry_put a ext_type proc =
     (\<lambda>w. (Inr (),
        if uk_live w a
        then w\<lparr>uk_heap := (uk_heap w)[a := Some (AList.update ext_type proc (uk_entries w a))]\<rparr>
        else w))"

text \<open>Modelled from the spec: \<open>msgpack_unpacker_ext_registry_dup\<close> (unpacker_ext_registry.c
  is missing). New storage with the entries that the source has at the time of the call.\<close>

definition msgpack_unpacker_ext_registry_dup :: "addr \<Rightarrow> addr ruby" where
  "msgpack_unpacker_ext_registry_dup src =
     (\<lambda>w. (Inr (length (uk_heap w)), w\<lparr>uk_heap := uk_heap w @ [Some (uk_entries w src)]\<rparr>))"

text \<open>Modelled from the spec: \<open>msgpack_unpacker_ext_registry_destroy\<close>
  (unpacker_ext_registry.c is missing). The storage is emptied and its handle is dead from
  then on.\<close>

definition msgpack_unpacker_ext_registry_destroy :: "addr \<Rightarrow> unit ruby" where
  "msgpack_unpacker_ext_registry_destroy a =
     (\<lambda>w. (Inr (), w\<lparr>uk_heap := (uk_heap w)[a := None]\<rparr>))"

section \<open>The factory (factory_class.c)\<close>

record msgpack_factory_t =
  packer_options :: rvalue
  unpacker_options :: rvalue
  pkrg :: addr
  ukrg :: addr

text \<open>Of a packer and an unpacker only the registry field is touched by the factory.\<close>

record msgpack_packer_t =
  pk_ext_registry :: addr

record msgpack_unpacker_t =
  uk_ext_registry :: addr

text \<open>The macro \<open>FACTORY(from, name)\<close>: the wrapped struct, or \<open>ArgumentError\<close> for a
  \<open>NULL\<close> data pointer.\<close>

definition FACTORY :: "msgpack_factory_t option \<Rightarrow> msgpack_factory_t ruby" where
  "FACTORY from =
     (case from of
        None \<Rightarrow> rb_raise ArgumentError (NULL_found ''fc'')
      | Some fc \<Rightarrow> rb_return fc)"

definition Factory_alloc :: "msgpack_factory_t option ruby" where
  "Factory_alloc =
     rb_bind msgpack_packer_ext_registry_init (\<lambda>p.
     rb_bind msgpack_unpacker_ext_registry_init (\<lambda>u.
     rb_return (Some \<lparr>packer_options = rb_hash_new, unpacker_options = rb_hash_new,
                      pkrg = p, ukrg = u\<rparr>)))"

definition Factory_initialize :: "rvalue list \<Rightarrow> msgpack_factory_t option \<Rightarrow> rvalue ruby" where
  "Factory_initialize argv self =
     rb_bind (FACTORY self) (\<lambda>fc.
     rb_bind (if length argv = 0 then rb_return ()
              else rb_raise ArgumentError (Wrong_number_of_arguments (length argv) ''0'')) (\<lambda>_.
     rb_return RNil))"

text \<open>\<open>Factory.new(*argv)\<close>: the class is registered with \<open>Factory_alloc\<close> as its allocator
  and \<open>Factory_initialize\<close> as \<open>initialize\<close>, so construction allocates and then
  initializes.\<close>

definition Factory_new :: "rvalue list \<Rightarrow> msgpack_factory_t option ruby" where
  "Factory_new argv =
     rb_bind Factory_alloc (\<lambda>self.
     rb_bind (Factory_initialize argv self) (\<lambda>_.
     rb_return self))"

text \<open>Modelled from the spec: \<open>MessagePack_Packer_new\<close> (packer_class.c is missing).
  Section 4.3 of the spec: the construction step makes a new packer from the pass-through
  arguments and attaches a default extension registry to it. Failures of the construction
  itself are outside the model.\<close>

definition MessagePack_Packer_new :: "rvalue list \<Rightarrow> msgpack_packer_t ruby" where
  "MessagePack_Packer_new argv =
     rb_bind msgpack_packer_ext_registry_init (\<lambda>a.
     rb_return \<lparr>pk_ext_registry = a\<rparr>)"

text \<open>Modelled from the spec: \<open>MessagePack_Unpacker_new\<close> (unpacker_class.c is missing).
  Section 4.3 of the spec: symmetric to the packer, with a default decode registry.\<close>

definition MessagePack_Unpacker_new :: "rvalue list \<Rightarrow> msgpack_unpacker_t ruby" where
  "MessagePack_Unpacker_new argv =
     rb_bind msgpack_unpacker_ext_registry_init (\<lambda>a.
     rb_return \<lparr>uk_ext_registry = a\<rparr>)"

definition Factory_packer :: "rvalue list \<Rightarrow> msgpack_factory_t option \<Rightarrow> msgpack_packer_t ruby" where
  "Factory_packer argv self =
     rb_bind (FACTORY self) (\<lambda>fc.
     rb_bind (MessagePack_Packer_new argv) (\<lambda>pk.
     rb_bind (msgpack_packer_ext_registry_destroy (pk_ext_registry pk)) (\<lambda>_.
     rb_bind (msgpack_packer_ext_registry_dup (pkrg fc)) (\<lambda>a.
     rb_return (pk\<lparr>pk_ext_registry := a\<rparr>)))))"

definition Factory_unpacker ::
    "rvalue list \<Rightarrow> msgpack_factory_t option \<Rightarrow> msgpack_unpacker_t ruby" where
  "Factory_unpacker argv self =
     rb_bind (FACTORY self) (\<lambda>fc.
     rb_bind (MessagePack_Unpacker_new argv) (\<lambda>uk.
     rb_bind (msgpack_unpacker_ext_registry_destroy (uk_ext_registry uk)) (\<lambda>_.
     rb_bind (msgpack_unpacker_ext_registry_dup (ukrg fc)) (\<lambda>a.
     rb_return (uk\<lparr>uk_ext_registry := a\<rparr>)))))"

text \<open>\<open>Factory_register_type\<close>, statement by statement: the switch on \<open>argc\<close>, the
  conversion and range check of the code, the check of the class, the two hooks, the two
  \<open>put\<close>s.\<close>

definition Factory_register_type ::
    "rvalue list \<Rightarrow> msgpack_factory_t option \<Rightarrow> rvalue ruby" where
  "Factory_register_type argv self =
     rb_bind (FACTORY self) (\<lambda>fc.
     rb_bind
       (if length argv = 2 then
          rb_return (RSymbol ''to_msgpack_ext'', RSymbol ''from_msgpack_ext'')
        else if length argv = 3 then
          (let options = argv ! 2 in
           if rb_type options \<noteq> T_HASH
           then rb_raise ArgumentError (Expected_Hash_but_found options)
           else rb_return (rb_hash_aref options (RSymbol ''packer''),
                           rb_hash_aref options (RSymbol ''unpacker'')))
        else rb_raise ArgumentError (Wrong_number_of_arguments (length argv) ''2..3''))
       (\<lambda>(packer_arg, unpacker_arg).
     rb_bind (rb_call (rb_num2int (argv ! 0))) (\<lambda>ext_type.
     rb_bind (if ext_type < - 128 \<or> ext_type > 127
              then rb_raise RangeError (Too_big_for_signed_char ext_type)
              else rb_return ()) (\<lambda>_.
     let ext_class = argv ! 1 in
     rb_bind (if rb_type ext_class \<noteq> T_CLASS
              then rb_raise ArgumentError (Expected_Class_but_found ext_class)
              else rb_return ()) (\<lambda>_.
     rb_bind (if packer_arg \<noteq> RNil
              then rb_call (rb_funcall packer_arg ''to_proc'' [])
              else rb_return RNil) (\<lambda>packer_proc.
     rb_bind (if unpacker_arg \<noteq> RNil
              then (if rb_type unpacker_arg = T_SYMBOL \<or> rb_type unpacker_arg = T_STRING
                    then rb_call (rb_obj_method ext_class unpacker_arg)
                    else rb_call (rb_funcall unpacker_arg ''method'' [RSymbol ''call'']))
              else rb_return RNil) (\<lambda>unpacker_proc.
     rb_bind (msgpack_packer_ext_registry_put (pkrg fc) ext_class ext_type packer_proc) (\<lambda>_.
     rb_bind (msgpack_unpacker_ext_registry_put (ukrg fc) ext_type unpacker_proc) (\<lambda>_.
     rb_return RNil)))))))))"

subsection \<open>The local variables of \<open>Factory_register_type\<close> as functions of the arguments\<close>

text \<open>These name the values that \<open>packer_arg\<close>, \<open>unpacker_arg\<close>, \<open>packer_proc\<close> and
  \<open>unpacker_proc\<close> take in a call that passes the switch on \<open>argc\<close>; the lemmas below
  relate them to \<open>Factory_register_type\<close>.\<close>

definition args_accepted :: "rvalue list \<Rightarrow> bool" where
  "args_accepted argv = (length argv = 2 \<or> length argv = 3 \<and> rb_type (argv ! 2) = T_HASH)"

definition packer_arg_of :: "rvalue list \<Rightarrow> rvalue" where
  "packer_arg_of argv =
     (if length argv = 2 then RSymbol ''to_msgpack_ext''
      else rb_hash_aref (argv ! 2) (RSymbol ''packer''))"

definition unpacker_arg_of :: "rvalue list \<Rightarrow> rvalue" where
  "unpacker_arg_of argv =
     (if length argv = 2 then RSymbol ''from_msgpack_ext''
      else rb_hash_aref (argv ! 2) (RSymbol ''unpacker''))"

definition packer_proc_of :: "rvalue list \<Rightarrow> rerror + rvalue" where
  "packer_proc_of argv =
     (if packer_arg_of argv \<noteq> RNil then rb_funcall (packer_arg_of argv) ''to_proc'' []
      else Inr RNil)"

definition unpacker_proc_of :: "rvalue list \<Rightarrow> rerror + rvalue" where
  "unpacker_proc_of argv =
     (if unpacker_arg_of argv \<noteq> RNil
      then (if rb_type (unpacker_arg_of argv) = T_SYMBOL \<or>
               rb_type (unpacker_arg_of argv) = T_STRING
            then rb_obj_method (argv ! 1) (unpacker_arg_of argv)
            else rb_funcall (unpacker_arg_of argv) ''method'' [RSymbol ''call''])
      else Inr RNil)"

text \<open>The errors that \<open>Factory_register_type\<close> raises for a wrong number of arguments,
  for options that are not a hash, for a code that is out of range (also when it does not
  even fit an \<open>int\<close>) and for an associated type that is not a class.\<close>

fun validation_error :: "rerror \<Rightarrow> bool" where
  "validation_error (Raise ArgumentError (Wrong_number_of_arguments n s)) = True"
| "validation_error (Raise ArgumentError (Expected_Hash_but_found v)) = True"
| "validation_error (Raise ArgumentError (Expected_Class_but_found v)) = True"
| "validation_error (Raise RangeError (Too_big_for_signed_char n)) = True"
| "validation_error (Raise RangeError (Too_big_to_convert_to_int n)) = True"
| "validation_error e = False"

subsection \<open>Sample values\<close>

definition Time_class :: rvalue where
  "Time_class = RClass ''Time'' [(''from_msgpack_ext'', RNil)] [''to_msgpack_ext'']"

definition Point_class :: rvalue where
  "Point_class = RClass ''Point'' [(''new'', RNil)] [''x'', ''y'']"

definition Comparable_module :: rvalue where
  "Comparable_module = RModule ''Comparable'' [] [''between?'']"

definition fresh_factory :: msgpack_factory_t where
  "fresh_factory = \<lparr>packer_options = RHash [] RNil, unpacker_options = RHash [] RNil,
                     pkrg = 0, ukrg = 0\<rparr>"

definition fresh_world :: world where
  "fresh_world = \<lparr>pk_heap = [Some []], uk_heap = [Some []]\<rparr>"

text \<open>A run that shows the snapshots: from the new factory a packer and an unpacker are
  made, then \<open>Time\<close> is registered under code 1, then a second packer and a second unpacker
  are made. These are the worlds after each step.\<close>

definition Time_entry :: "rvalue \<times> int \<times> rvalue" where
  "Time_entry = (Time_class, 1, RSymProc ''to_msgpack_ext'')"

definition code_1_entry :: "int \<times> rvalue" where
  "code_1_entry = (1, RMethod Time_class ''from_msgpack_ext'')"

definition snap_world_1 :: world where
  "snap_world_1 = \<lparr>pk_heap = [Some [], None, Some []], uk_heap = [Some []]\<rparr>"

definition snap_world_2 :: world where
  "snap_world_2 = \<lparr>pk_heap = [Some [], None, Some []], uk_heap = [Some [], None, Some []]\<rparr>"

definition snap_world_3 :: world where
  "snap_world_3 = \<lparr>pk_heap = [Some [Time_entry], None, Some []],
                    uk_heap = [Some [code_1_entry], None, Some []]\<rparr>"

definition snap_world_4 :: world where
  "snap_world_4 = \<lparr>pk_heap = [Some [Time_entry], None, Some [], None, Some [Time_entry]],
                    uk_heap = [Some [code_1_entry], None, Some []]\<rparr>"

definition snap_world_5 :: world where
  "snap_world_5 = \<lparr>pk_heap = [Some [Time_entry], None, Some [], None, Some [Time_entry]],
                    uk_heap = [Some [code_1_entry], None, Some [], None, Some [code_1_entry]]\<rparr>"

text \<open>A run that registers \<open>Time\<close> under code 1 twice, with different hooks, and then
  makes a packer and an unpacker.\<close>

definition first_options :: rvalue where
  "first_options = RHash [(RSymbol ''packer'', RProc 1), (RSymbol ''unpacker'', RProc 2)] RNil"

definition second_options :: rvalue where
  "second_options = RHash [(RSymbol ''packer'', RProc 3), (RSymbol ''unpacker'', RProc 4)] RNil"

definition twice_world_1 :: world where
  "twice_world_1 = \<lparr>pk_heap = [Some [(Time_class, 1, RProc 1)]],
                     uk_heap = [Some [(1, RMethod (RProc 2) ''call'')]]\<rparr>"

definition twice_world_2 :: world where
  "twice_world_2 = \<lparr>pk_heap = [Some [(Time_class, 1, RProc 3)]],
                     uk_heap = [Some [(1, RMethod (RProc 4) ''call'')]]\<rparr>"

definition twice_world_3 :: world where
  "twice_world_3 = \<lparr>pk_heap = [Some [(Time_class, 1, RProc 3)], None,
                                Some [(Time_class, 1, RProc 3)]],
                     uk_heap = [Some [(1, RMethod (RProc 4) ''call'')]]\<rparr>"

definition twice_world_4 :: world where
  "twice_world_4 = \<lparr>pk_heap = [Some [(Time_class, 1, RProc 3)], None,
                                Some [(Time_class, 1, RProc 3)]],
                     uk_heap = [Some [(1, RMethod (RProc 4) ''call'')], None,
                                Some [(1, RMethod (RProc 4) ''call'')]]\<rparr>"

section \<open>Stages of \<open>Factory_register_type\<close>\<close>

lemmas monad_defs = rb_bind_def rb_return_def rb_raise_def rb_call_def FACTORY_def

lemmas sample_defs = Time_class_def Point_class_def Comparable_module_def
  fresh_factory_def fresh_world_def

lemmas run_defs = Time_entry_def code_1_entry_def snap_world_1_def snap_world_2_def
  snap_world_3_def snap_world_4_def snap_world_5_def first_options_def second_options_def
  twice_world_1_def twice_world_2_def twice_world_3_def twice_world_4_def

lemma register_type_null:
  "Factory_register_type argv None w = (Inl (Raise ArgumentError (NULL_found ''fc'')), w)"
  by (simp add: Factory_register_type_def monad_defs)

lemma register_type_arity:
  "length argv \<noteq> 2 \<Longrightarrow> length argv \<noteq> 3 \<Longrightarrow>
   Factory_register_type argv (Some fc) w =
     (Inl (Raise ArgumentError (Wrong_number_of_arguments (length argv) ''2..3'')), w)"
  by (simp add: Factory_register_type_def monad_defs)

lemma register_type_options:
  "length argv = 3 \<Longrightarrow> rb_type (argv ! 2) \<noteq> T_HASH \<Longrightarrow>
   Factory_register_type argv (Some fc) w =
     (Inl (Raise ArgumentError (Expected_Hash_but_found (argv ! 2))), w)"
  by (simp add: Factory_register_type_def monad_defs)

lemma register_type_conversion:
  "args_accepted argv \<Longrightarrow> rb_num2int (argv ! 0) = Inl e \<Longrightarrow>
   Factory_register_type argv (Some fc) w = (Inl e, w)"
  by (auto simp add: Factory_register_type_def monad_defs Let_def args_accepted_def)

lemma register_type_range:
  "args_accepted argv \<Longrightarrow> rb_num2int (argv ! 0) = Inr n \<Longrightarrow> n < - 128 \<or> 127 < n \<Longrightarrow>
   Factory_register_type argv (Some fc) w =
     (Inl (Raise RangeError (Too_big_for_signed_char n)), w)"
  by (auto simp add: Factory_register_type_def monad_defs Let_def args_accepted_def)

lemma register_type_class:
  "args_accepted argv \<Longrightarrow> rb_num2int (argv ! 0) = Inr n \<Longrightarrow> - 128 \<le> n \<Longrightarrow> n \<le> 127 \<Longrightarrow>
   rb_type (argv ! 1) \<noteq> T_CLASS \<Longrightarrow>
   Factory_register_type argv (Some fc) w =
     (Inl (Raise ArgumentError (Expected_Class_but_found (argv ! 1))), w)"
  by (auto simp add: Factory_register_type_def monad_defs Let_def args_accepted_def)

lemma register_type_checked:
  assumes "args_accepted argv" "rb_num2int (argv ! 0) = Inr n" "- 128 \<le> n" "n \<le> 127"
    "rb_type (argv ! 1) = T_CLASS"
  shows "Factory_register_type argv (Some fc) w =
     (case packer_proc_of argv of
        Inl e \<Rightarrow> (Inl e, w)
      | Inr pp \<Rightarrow>
         (case unpacker_proc_of argv of
            Inl e \<Rightarrow> (Inl e, w)
          | Inr up \<Rightarrow>
             (Inr RNil,
              snd (msgpack_unpacker_ext_registry_put (ukrg fc) n up
                (snd (msgpack_packer_ext_registry_put (pkrg fc) (argv ! 1) n pp w))))))"
proof (cases "length argv = 2")
  case True
  with assms show ?thesis
    by (simp add: Factory_register_type_def monad_defs Let_def packer_proc_of_def
        unpacker_proc_of_def packer_arg_of_def unpacker_arg_of_def
        msgpack_packer_ext_registry_put_def msgpack_unpacker_ext_registry_put_def
        split: sum.splits)
next
  case False
  with assms have "length argv = 3" "rb_type (argv ! 2) = T_HASH"
    by (auto simp: args_accepted_def)
  with assms show ?thesis
    by (simp add: Factory_register_type_def monad_defs Let_def packer_proc_of_def
        unpacker_proc_of_def packer_arg_of_def unpacker_arg_of_def
        msgpack_packer_ext_registry_put_def msgpack_unpacker_ext_registry_put_def
        split: sum.splits)
qed

text \<open>Every raise of \<open>Factory_register_type\<close> precedes the two \<open>put\<close>s, so a call that
  fails, for whatever reason, leaves the world as it found it.\<close>

lemma register_type_failure_frame:
  assumes "fst (Factory_register_type argv self w) = Inl e"
  shows "snd (Factory_register_type argv self w) = w"
proof (cases self)
  case None
  then show ?thesis by (simp add: register_type_null)
next
  case (Some fc)
  show ?thesis
  proof (cases "args_accepted argv")
    case False
    then have "length argv \<noteq> 2 \<and> length argv \<noteq> 3 \<or> length argv = 3 \<and> rb_type (argv ! 2) \<noteq> T_HASH"
      by (auto simp: args_accepted_def)
    then show ?thesis
      using Some by (auto simp: register_type_arity register_type_options)
  next
    case acc: True
    show ?thesis
    proof (cases "rb_num2int (argv ! 0)")
      case (Inl e')
      then show ?thesis using Some acc by (simp add: register_type_conversion)
    next
      case (Inr n)
      show ?thesis
      proof (cases "n < - 128 \<or> 127 < n")
        case True
        then show ?thesis using Some acc Inr by (simp add: register_type_range)
      next
        case rng: False
        show ?thesis
        proof (cases "rb_type (argv ! 1) = T_CLASS")
          case False
          then show ?thesis using Some acc Inr rng by (simp add: register_type_class)
        next
          case True
          then have "Factory_register_type argv (Some fc) w =
            (case packer_proc_of argv of
               Inl e \<Rightarrow> (Inl e, w)
             | Inr pp \<Rightarrow>
                (case unpacker_proc_of argv of
                   Inl e \<Rightarrow> (Inl e, w)
                 | Inr up \<Rightarrow>
                    (Inr RNil,
                     snd (msgpack_unpacker_ext_registry_put (ukrg fc) n up
                       (snd (msgpack_packer_ext_registry_put (pkrg fc) (argv ! 1) n pp w))))))"
            using acc Inr rng by (intro register_type_checked) auto
          then show ?thesis
            using assms Some by (auto split: sum.splits)
        qed
      qed
    qed
  qed
qed

lemmas eval_defs = Factory_register_type_def monad_defs Let_def rb_num2int_def INT_MIN_def
  INT_MAX_def responds_to_def rb_funcall_def
  msgpack_packer_ext_registry_put_def msgpack_unpacker_ext_registry_put_def
  pk_live_def uk_live_def pk_entries_def uk_entries_def sample_defs

lemma rb_obj_method_error:
  "rb_obj_method obj vid = Inl (Raise c m) \<Longrightarrow> c = NameError \<or> c = TypeError"
  by (cases vid) (auto split: if_splits)

lemma rb_funcall_error:
  "rb_funcall recv mid args = Inl (Raise c m) \<Longrightarrow>
   c = NameError \<or> c = TypeError \<or> c = NoMethodError"
  by (auto simp: rb_funcall_def dest: rb_obj_method_error split: if_splits option.splits)

lemma packer_proc_of_error:
  "packer_proc_of argv = Inl (Raise c m) \<Longrightarrow>
   c = NameError \<or> c = TypeError \<or> c = NoMethodError"
  by (auto simp: packer_proc_of_def dest: rb_funcall_error split: if_splits)

lemma unpacker_proc_of_error:
  "unpacker_proc_of argv = Inl (Raise c m) \<Longrightarrow>
   c = NameError \<or> c = TypeError \<or> c = NoMethodError"
  unfolding unpacker_proc_of_def
  by (auto dest: rb_funcall_error rb_obj_method_error split: if_splits)

lemma rb_num2int_small:
  "to_integer v = Some n \<Longrightarrow> - 128 \<le> n \<Longrightarrow> n \<le> 127 \<Longrightarrow> rb_num2int v = Inr n"
  by (simp add: rb_num2int_def INT_MIN_def INT_MAX_def)

lemma rb_num2int_not_convertible:
  "to_integer v = None \<Longrightarrow>
   rb_num2int v = Inl (Raise TypeError (No_implicit_conversion_into_Integer v))"
  by (simp add: rb_num2int_def)

lemma rb_num2int_Inr: "rb_num2int v = Inr n \<Longrightarrow> to_integer v = Some n"
  by (auto simp: rb_num2int_def split: option.splits if_splits)

text \<open>Once the code and the class have passed their checks, the only errors left are
  those of the hook resolution.\<close>

lemma register_type_checked_error:
  assumes "args_accepted argv" "rb_num2int (argv ! 0) = Inr n" "- 128 \<le> n" "n \<le> 127"
    "rb_type (argv ! 1) = T_CLASS"
    "fst (Factory_register_type argv (Some fc) w) = Inl (Raise c m)"
  shows "c = NameError \<or> c = TypeError \<or> c = NoMethodError"
proof -
  note eq = register_type_checked [OF assms(1-5), of fc w]
  show ?thesis
  proof (cases "packer_proc_of argv")
    case (Inl e)
    with eq assms(6) have "packer_proc_of argv = Inl (Raise c m)" by simp
    then show ?thesis by (rule packer_proc_of_error)
  next
    case pp: (Inr pp)
    show ?thesis
    proof (cases "unpacker_proc_of argv")
      case (Inl e)
      with eq pp assms(6) have "unpacker_proc_of argv = Inl (Raise c m)" by simp
      then show ?thesis by (rule unpacker_proc_of_error)
    next
      case (Inr up)
      with eq pp assms(6) show ?thesis by simp
    qed
  qed
qed

section \<open>Effect of the registry operations on the store\<close>

lemma pk_put_entries:
  "pk_live w a \<Longrightarrow>
   pk_entries (snd (msgpack_packer_ext_registry_put a c n p w)) a =
     AList.update c (n, p) (pk_entries w a)"
  by (simp add: msgpack_packer_ext_registry_put_def pk_live_def pk_entries_def)

lemma pk_put_entries_other:
  "b \<noteq> a \<Longrightarrow>
   pk_entries (snd (msgpack_packer_ext_registry_put a c n p w)) b = pk_entries w b"
  by (simp add: msgpack_packer_ext_registry_put_def pk_entries_def)

lemma pk_put_live:
  "pk_live (snd (msgpack_packer_ext_registry_put a c n p w)) b = pk_live w b"
  by (auto simp: msgpack_packer_ext_registry_put_def pk_live_def nth_list_update)

lemma pk_put_uk_heap:
  "uk_heap (snd (msgpack_packer_ext_registry_put a c n p w)) = uk_heap w"
  by (simp add: msgpack_packer_ext_registry_put_def)

lemma pk_put_length:
  "length (pk_heap (snd (msgpack_packer_ext_registry_put a c n p w))) = length (pk_heap w)"
  by (simp add: msgpack_packer_ext_registry_put_def)

lemma uk_put_entries:
  "uk_live w a \<Longrightarrow>
   uk_entries (snd (msgpack_unpacker_ext_registry_put a n p w)) a =
     AList.update n p (uk_entries w a)"
  by (simp add: msgpack_unpacker_ext_registry_put_def uk_live_def uk_entries_def)

lemma uk_put_entries_other:
  "b \<noteq> a \<Longrightarrow>
   uk_entries (snd (msgpack_unpacker_ext_registry_put a n p w)) b = uk_entries w b"
  by (simp add: msgpack_unpacker_ext_registry_put_def uk_entries_def)

lemma uk_put_live:
  "uk_live (snd (msgpack_unpacker_ext_registry_put a n p w)) b = uk_live w b"
  by (auto simp: msgpack_unpacker_ext_registry_put_def uk_live_def nth_list_update)

lemma uk_put_pk_heap:
  "pk_heap (snd (msgpack_unpacker_ext_registry_put a n p w)) = pk_heap w"
  by (simp add: msgpack_unpacker_ext_registry_put_def)

lemma uk_put_length:
  "length (uk_heap (snd (msgpack_unpacker_ext_registry_put a n p w))) = length (uk_heap w)"
  by (simp add: msgpack_unpacker_ext_registry_put_def)

lemma pk_entries_cong: "pk_heap w' = pk_heap w \<Longrightarrow> pk_entries w' a = pk_entries w a"
  by (simp add: pk_entries_def)

lemma uk_entries_cong: "uk_heap w' = uk_heap w \<Longrightarrow> uk_entries w' a = uk_entries w a"
  by (simp add: uk_entries_def)

lemma pk_live_cong: "pk_heap w' = pk_heap w \<Longrightarrow> pk_live w' a = pk_live w a"
  by (simp add: pk_live_def)

lemma uk_live_cong: "uk_heap w' = uk_heap w \<Longrightarrow> uk_live w' a = uk_live w a"
  by (simp add: uk_live_def)

text \<open>A successful registration has passed every check, and its world is the old one
  after the two \<open>put\<close>s.\<close>

lemma register_type_success:
  assumes "Factory_register_type argv (Some fc) w = (Inr r, w')"
  obtains n pp up where
    "args_accepted argv" "rb_num2int (argv ! 0) = Inr n" "- 128 \<le> n" "n \<le> 127"
    "rb_type (argv ! 1) = T_CLASS"
    "packer_proc_of argv = Inr pp" "unpacker_proc_of argv = Inr up"
    "r = RNil"
    "w' = snd (msgpack_unpacker_ext_registry_put (ukrg fc) n up
            (snd (msgpack_packer_ext_registry_put (pkrg fc) (argv ! 1) n pp w)))"
proof -
  have acc: "args_accepted argv"
  proof (rule ccontr)
    assume "\<not> args_accepted argv"
    then have "length argv \<noteq> 2 \<and> length argv \<noteq> 3 \<or> length argv = 3 \<and> rb_type (argv ! 2) \<noteq> T_HASH"
      by (auto simp: args_accepted_def)
    with assms show False
      by (auto simp: register_type_arity register_type_options)
  qed
  obtain n where num: "rb_num2int (argv ! 0) = Inr n"
    using assms acc by (cases "rb_num2int (argv ! 0)") (auto simp: register_type_conversion)
  have "\<not> (n < - 128 \<or> 127 < n)"
  proof
    assume "n < - 128 \<or> 127 < n"
    from register_type_range [OF acc num this, of fc w] assms show False by simp
  qed
  then have rng: "- 128 \<le> n" "n \<le> 127" by auto
  have cls: "rb_type (argv ! 1) = T_CLASS"
    using assms register_type_class [OF acc num rng, of fc w] by auto
  note eq = register_type_checked [OF acc num rng cls, of fc w]
  obtain pp where pp: "packer_proc_of argv = Inr pp"
    using assms eq by (cases "packer_proc_of argv") auto
  obtain up where up: "unpacker_proc_of argv = Inr up"
    using assms eq pp by (cases "unpacker_proc_of argv") auto
  show thesis
    using that [OF acc num rng cls pp up] assms eq pp up by simp
qed

lemma register_type_entries:
  assumes "args_accepted argv" "rb_num2int (argv ! 0) = Inr n" "- 128 \<le> n" "n \<le> 127"
    "rb_type (argv ! 1) = T_CLASS"
    "packer_proc_of argv = Inr pp" "unpacker_proc_of argv = Inr up"
    "pk_live w (pkrg fc)" "uk_live w (ukrg fc)"
  shows "fst (Factory_register_type argv (Some fc) w) = Inr RNil"
    and "pk_entries (snd (Factory_register_type argv (Some fc) w)) (pkrg fc) =
      AList.update (argv ! 1) (n, pp) (pk_entries w (pkrg fc))"
    and "uk_entries (snd (Factory_register_type argv (Some fc) w)) (ukrg fc) =
      AList.update n up (uk_entries w (ukrg fc))"
proof -
  note eq = register_type_checked [OF assms(1-5), of fc w]
  show "fst (Factory_register_type argv (Some fc) w) = Inr RNil"
    using eq assms(6,7) by simp
  have "pk_entries (snd (Factory_register_type argv (Some fc) w)) (pkrg fc) =
      pk_entries (snd (msgpack_packer_ext_registry_put (pkrg fc) (argv ! 1) n pp w)) (pkrg fc)"
    using eq assms(6,7) by (simp add: pk_entries_cong [OF uk_put_pk_heap])
  then show "pk_entries (snd (Factory_register_type argv (Some fc) w)) (pkrg fc) =
      AList.update (argv ! 1) (n, pp) (pk_entries w (pkrg fc))"
    using assms(8) by (simp add: pk_put_entries)
  have "uk_live (snd (msgpack_packer_ext_registry_put (pkrg fc) (argv ! 1) n pp w)) (ukrg fc)"
    using assms(9) by (simp add: uk_live_cong [OF pk_put_uk_heap])
  then show "uk_entries (snd (Factory_register_type argv (Some fc) w)) (ukrg fc) =
      AList.update n up (uk_entries w (ukrg fc))"
    using eq assms(6,7)
    by (simp add: uk_put_entries uk_entries_cong [OF pk_put_uk_heap])
qed


lemma two_argument_procs:
  "packer_proc_of [code, cls] = Inr (RSymProc ''to_msgpack_ext'')"
  "unpacker_proc_of [code, cls] =
     (if responds_to cls ''from_msgpack_ext'' then Inr (RMethod cls ''from_msgpack_ext'')
      else Inl (Raise NameError (Undefined_method ''from_msgpack_ext'' cls)))"
  by (simp_all add: packer_proc_of_def unpacker_proc_of_def packer_arg_of_def
      unpacker_arg_of_def rb_funcall_def)

lemma three_argument_args:
  "packer_arg_of [code, cls, opts] = rb_hash_aref opts (RSymbol ''packer'')"
  "unpacker_arg_of [code, cls, opts] = rb_hash_aref opts (RSymbol ''unpacker'')"
  by (simp_all add: packer_arg_of_def unpacker_arg_of_def)

lemma packer_proc_of_cases:
  assumes "packer_proc_of argv = Inr pp"
  shows "(packer_arg_of argv = RNil \<longrightarrow> pp = RNil) \<and>
    (packer_arg_of argv \<noteq> RNil \<longrightarrow> rb_funcall (packer_arg_of argv) ''to_proc'' [] = Inr pp) \<and>
    (\<forall>h. packer_arg_of argv = RProc h \<longrightarrow> pp = RProc h) \<and>
    (\<forall>s. packer_arg_of argv = RSymbol s \<longrightarrow> pp = RSymProc s)"
  using assms by (auto simp: packer_proc_of_def rb_funcall_def split: if_splits)

lemma unpacker_proc_of_cases:
  assumes "unpacker_proc_of argv = Inr up"
  shows "(unpacker_arg_of argv = RNil \<longrightarrow> up = RNil) \<and>
    (\<forall>s. unpacker_arg_of argv = RSymbol s \<or> unpacker_arg_of argv = RString s \<longrightarrow>
       responds_to (argv ! 1) s \<and> up = RMethod (argv ! 1) s) \<and>
    (unpacker_arg_of argv \<noteq> RNil \<and> rb_type (unpacker_arg_of argv) \<noteq> T_SYMBOL \<and>
      rb_type (unpacker_arg_of argv) \<noteq> T_STRING \<longrightarrow>
       responds_to (unpacker_arg_of argv) ''call'' \<and>
       up = RMethod (unpacker_arg_of argv) ''call'')"
  using assms by (auto simp: unpacker_proc_of_def rb_funcall_def split: if_splits)

section \<open>Construction of packers and unpackers\<close>

lemma Factory_packer_result:
  "Factory_packer argv (Some fc) w =
     (Inr \<lparr>pk_ext_registry = Suc (length (pk_heap w))\<rparr>,
      w\<lparr>pk_heap := pk_heap w @ [None, Some (pk_entries w (pkrg fc))]\<rparr>)"
proof -
  have "pk_entries (w\<lparr>pk_heap := pk_heap w @ [None]\<rparr>) (pkrg fc) = pk_entries w (pkrg fc)"
    by (auto simp: pk_entries_def nth_append less_Suc_eq)
  then show ?thesis
    by (simp add: Factory_packer_def MessagePack_Packer_new_def monad_defs
        msgpack_packer_ext_registry_init_def msgpack_packer_ext_registry_destroy_def
        msgpack_packer_ext_registry_dup_def)
qed

lemma Factory_unpacker_result:
  "Factory_unpacker argv (Some fc) w =
     (Inr \<lparr>uk_ext_registry = Suc (length (uk_heap w))\<rparr>,
      w\<lparr>uk_heap := uk_heap w @ [None, Some (uk_entries w (ukrg fc))]\<rparr>)"
proof -
  have "uk_entries (w\<lparr>uk_heap := uk_heap w @ [None]\<rparr>) (ukrg fc) = uk_entries w (ukrg fc)"
    by (auto simp: uk_entries_def nth_append less_Suc_eq)
  then show ?thesis
    by (simp add: Factory_unpacker_def MessagePack_Unpacker_new_def monad_defs
        msgpack_unpacker_ext_registry_init_def msgpack_unpacker_ext_registry_destroy_def
        msgpack_unpacker_ext_registry_dup_def)
qed

lemma pk_entries_append:
  "a < length (pk_heap w) \<Longrightarrow> pk_entries (w\<lparr>pk_heap := pk_heap w @ xs\<rparr>) a = pk_entries w a"
  by (simp add: pk_entries_def nth_append)

lemma uk_entries_append:
  "a < length (uk_heap w) \<Longrightarrow> uk_entries (w\<lparr>uk_heap := uk_heap w @ xs\<rparr>) a = uk_entries w a"
  by (simp add: uk_entries_def nth_append)

lemma pk_live_append:
  "pk_live w a \<Longrightarrow> pk_live (w\<lparr>pk_heap := pk_heap w @ xs\<rparr>) a"
  by (simp add: pk_live_def nth_append)

lemma uk_live_append:
  "uk_live w a \<Longrightarrow> uk_live (w\<lparr>uk_heap := uk_heap w @ xs\<rparr>) a"
  by (simp add: uk_live_def nth_append)

text \<open>What a new packer means for the store: its registry is a fresh live handle holding
  the factory's entries, and every handle that was live keeps its entries.\<close>

lemma Factory_packer_effect:
  assumes "Factory_packer argv (Some fc) w = (Inr p, w')"
  shows "pk_ext_registry p = Suc (length (pk_heap w))"
    and "length (pk_heap w') = Suc (Suc (length (pk_heap w)))"
    and "pk_live w' (pk_ext_registry p)"
    and "pk_entries w' (pk_ext_registry p) = pk_entries w (pkrg fc)"
    and "uk_heap w' = uk_heap w"
    and "\<And>a. pk_live w a \<Longrightarrow> pk_live w' a \<and> pk_entries w' a = pk_entries w a"
  using assms unfolding Factory_packer_result
  by (auto simp: pk_live_def pk_entries_def nth_append)

lemma Factory_unpacker_effect:
  assumes "Factory_unpacker argv (Some fc) w = (Inr u, w')"
  shows "uk_ext_registry u = Suc (length (uk_heap w))"
    and "length (uk_heap w') = Suc (Suc (length (uk_heap w)))"
    and "uk_live w' (uk_ext_registry u)"
    and "uk_entries w' (uk_ext_registry u) = uk_entries w (ukrg fc)"
    and "pk_heap w' = pk_heap w"
    and "\<And>a. uk_live w a \<Longrightarrow> uk_live w' a \<and> uk_entries w' a = uk_entries w a"
  using assms unfolding Factory_unpacker_result
  by (auto simp: uk_live_def uk_entries_def nth_append)

text \<open>A registration touches the two registries of the factory and nothing else.\<close>

lemma register_type_effect:
  assumes "Factory_register_type argv (Some fc) w = (res, w')"
  shows "length (pk_heap w') = length (pk_heap w)"
    and "length (uk_heap w') = length (uk_heap w)"
    and "\<And>a. pk_live w' a = pk_live w a"
    and "\<And>a. uk_live w' a = uk_live w a"
    and "\<And>a. a \<noteq> pkrg fc \<Longrightarrow> pk_entries w' a = pk_entries w a"
    and "\<And>a. a \<noteq> ukrg fc \<Longrightarrow> uk_entries w' a = uk_entries w a"
proof -
  have "length (pk_heap w') = length (pk_heap w) \<and> length (uk_heap w') = length (uk_heap w) \<and>
    (\<forall>a. pk_live w' a = pk_live w a) \<and> (\<forall>a. uk_live w' a = uk_live w a) \<and>
    (\<forall>a. a \<noteq> pkrg fc \<longrightarrow> pk_entries w' a = pk_entries w a) \<and>
    (\<forall>a. a \<noteq> ukrg fc \<longrightarrow> uk_entries w' a = uk_entries w a)"
  proof (cases res)
    case (Inl e)
    with assms have "w' = w"
      using register_type_failure_frame [of argv "Some fc" w e] by simp
    then show ?thesis by simp
  next
    case (Inr r)
    with assms obtain n pp up where
      w': "w' = snd (msgpack_unpacker_ext_registry_put (ukrg fc) n up
            (snd (msgpack_packer_ext_registry_put (pkrg fc) (argv ! 1) n pp w)))"
      by (auto elim: register_type_success)
    show ?thesis
      unfolding w'
      by (simp add: uk_put_length pk_put_length uk_put_pk_heap pk_put_uk_heap
          uk_put_live pk_put_live uk_put_entries_other pk_put_entries_other
          pk_live_cong [OF uk_put_pk_heap] uk_live_cong [OF pk_put_uk_heap]
          pk_entries_cong [OF uk_put_pk_heap] uk_entries_cong [OF pk_put_uk_heap])
  qed
  then show "length (pk_heap w') = length (pk_heap w)"
    and "length (uk_heap w') = length (uk_heap w)"
    and "\<And>a. pk_live w' a = pk_live w a"
    and "\<And>a. uk_live w' a = uk_live w a"
    and "\<And>a. a \<noteq> pkrg fc \<Longrightarrow> pk_entries w' a = pk_entries w a"
    and "\<And>a. a \<noteq> ukrg fc \<Longrightarrow> uk_entries w' a = uk_entries w a"
    by simp_all
qed

section \<open>Overwriting\<close>

lemma filter_update_distinct:
  "distinct (map fst al) \<Longrightarrow> filter (\<lambda>e. fst e = k) (AList.update k v al) = [(k, v)]"
proof (induction al)
  case Nil
  then show ?case by simp
next
  case (Cons e al)
  show ?case
  proof (cases "fst e = k")
    case True
    with Cons.prems have "k \<notin> fst ` set al" by simp
    then have "\<forall>x \<in> set al. fst x \<noteq> k" by force
    then have "filter (\<lambda>e. fst e = k) al = []" by (simp add: filter_empty_conv)
    with True show ?thesis by simp
  next
    case False
    with Cons show ?thesis by simp
  qed
qed

lemma puts_absorb:
  assumes "pk_live w a" "uk_live w b"
  shows "snd (msgpack_unpacker_ext_registry_put b n up'
           (snd (msgpack_packer_ext_registry_put a c n pp'
             (snd (msgpack_unpacker_ext_registry_put b n up
               (snd (msgpack_packer_ext_registry_put a c n pp w))))))) =
         snd (msgpack_unpacker_ext_registry_put b n up'
           (snd (msgpack_packer_ext_registry_put a c n pp' w)))"
  using assms
  by (simp add: msgpack_packer_ext_registry_put_def msgpack_unpacker_ext_registry_put_def
      pk_live_def uk_live_def pk_entries_def uk_entries_def)

text \<open>The registries reachable from a new factory have one entry per key, and a
  registration keeps it so.\<close>

lemma register_type_distinct:
  assumes "Factory_register_type argv (Some fc) w = (res, w')"
    and "pk_live w (pkrg fc)" "uk_live w (ukrg fc)"
    and "distinct (map fst (pk_entries w (pkrg fc)))"
    and "distinct (map fst (uk_entries w (ukrg fc)))"
  shows "distinct (map fst (pk_entries w' (pkrg fc))) \<and>
    distinct (map fst (uk_entries w' (ukrg fc)))"
proof (cases res)
  case (Inl e)
  with assms(1) have "w' = w"
    using register_type_failure_frame [of argv "Some fc" w e] by simp
  with assms show ?thesis by simp
next
  case (Inr r)
  with assms(1) obtain n pp up where
    acc: "args_accepted argv" and num: "rb_num2int (argv ! 0) = Inr n"
    and rng: "- 128 \<le> n" "n \<le> 127" and cls: "rb_type (argv ! 1) = T_CLASS"
    and pp: "packer_proc_of argv = Inr pp" and up: "unpacker_proc_of argv = Inr up"
    by (auto elim: register_type_success)
  note ent = register_type_entries [OF acc num rng cls pp up assms(2,3)]
  have "w' = snd (Factory_register_type argv (Some fc) w)"
    using assms(1) by simp
  with ent(2,3) assms(4,5) show ?thesis
    by (simp add: distinct_update)
qed

section \<open>Construction of a factory\<close>

lemma initialize_arity:
  "length argv \<noteq> 0 \<Longrightarrow>
   Factory_initialize argv (Some fc) w =
     (Inl (Raise ArgumentError (Wrong_number_of_arguments (length argv) ''0'')), w)"
  by (simp add: Factory_initialize_def monad_defs)

lemma initialize_no_arguments: "Factory_initialize [] (Some fc) w = (Inr RNil, w)"
  by (simp add: Factory_initialize_def monad_defs)

lemma alloc_result:
  "Factory_alloc w =
     (Inr (Some \<lparr>packer_options = RHash [] RNil, unpacker_options = RHash [] RNil,
                 pkrg = length (pk_heap w), ukrg = length (uk_heap w)\<rparr>),
      w\<lparr>pk_heap := pk_heap w @ [Some []], uk_heap := uk_heap w @ [Some []]\<rparr>)"
  by (simp add: Factory_alloc_def monad_defs rb_hash_new_def
      msgpack_packer_ext_registry_init_def msgpack_unpacker_ext_registry_init_def)

lemma new_arity:
  "length argv \<noteq> 0 \<Longrightarrow>
   fst (Factory_new argv w) = Inl (Raise ArgumentError (Wrong_number_of_arguments (length argv) ''0''))"
  by (simp add: Factory_new_def rb_bind_def alloc_result initialize_arity)

lemma new_no_arguments:
  "Factory_new [] w =
     (Inr (Some \<lparr>packer_options = RHash [] RNil, unpacker_options = RHash [] RNil,
                 pkrg = length (pk_heap w), ukrg = length (uk_heap w)\<rparr>),
      w\<lparr>pk_heap := pk_heap w @ [Some []], uk_heap := uk_heap w @ [Some []]\<rparr>)"
  by (simp add: Factory_new_def rb_bind_def rb_return_def alloc_result initialize_no_arguments)

section \<open>Claims\<close>

text \<open>C7. \<open>register_type\<close> raises the wrong-number-of-arguments \<open>ArgumentError\<close> for every
  argument count other than 2 and 3; \<open>initialize\<close>, and with it the construction of a
  factory, raises it for every argument count other than 0; with no argument
  \<open>initialize\<close> returns and construction yields a factory whose two registries are live and
  empty and whose two options records are empty.\<close>

theorem arity_errors:
  "(length argv \<noteq> 2 \<and> length argv \<noteq> 3 \<longrightarrow>
      Factory_register_type argv (Some fc) w =
        (Inl (Raise ArgumentError (Wrong_number_of_arguments (length argv) ''2..3'')), w)) \<and>
   (length argv' \<noteq> 0 \<longrightarrow>
      Factory_initialize argv' (Some fc) w =
        (Inl (Raise ArgumentError (Wrong_number_of_arguments (length argv') ''0'')), w) \<and>
      fst (Factory_new argv' w) =
        Inl (Raise ArgumentError (Wrong_number_of_arguments (length argv') ''0''))) \<and>
   Factory_initialize [] (Some fc) w = (Inr RNil, w) \<and>
   (\<exists>fc' w'. Factory_new [] w = (Inr (Some fc'), w') \<and>
      pk_live w' (pkrg fc') \<and> pk_entries w' (pkrg fc') = [] \<and>
      uk_live w' (ukrg fc') \<and> uk_entries w' (ukrg fc') = [] \<and>
      packer_options fc' = RHash [] RNil \<and> unpacker_options fc' = RHash [] RNil)"
proof -
  have "\<exists>fc' w'. Factory_new [] w = (Inr (Some fc'), w') \<and>
      pk_live w' (pkrg fc') \<and> pk_entries w' (pkrg fc') = [] \<and>
      uk_live w' (ukrg fc') \<and> uk_entries w' (ukrg fc') = [] \<and>
      packer_options fc' = RHash [] RNil \<and> unpacker_options fc' = RHash [] RNil"
    unfolding new_no_arguments
    by (simp add: pk_live_def uk_live_def pk_entries_def uk_entries_def)
  then show ?thesis
    by (simp add: register_type_arity initialize_arity initialize_no_arguments new_arity)
qed

theorem arity_errors_witness:
  "Factory_register_type [RInteger 1] (Some fresh_factory) fresh_world =
     (Inl (Raise ArgumentError (Wrong_number_of_arguments 1 ''2..3'')), fresh_world) \<and>
   Factory_register_type [RInteger 1, Time_class, RHash [] RNil, RNil] (Some fresh_factory)
       fresh_world =
     (Inl (Raise ArgumentError (Wrong_number_of_arguments 4 ''2..3'')), fresh_world) \<and>
   Factory_initialize [RHash [] RNil] (Some fresh_factory) fresh_world =
     (Inl (Raise ArgumentError (Wrong_number_of_arguments 1 ''0'')), fresh_world) \<and>
   fst (Factory_new [RHash [] RNil] empty_world) =
     Inl (Raise ArgumentError (Wrong_number_of_arguments 1 ''0''))"
  using arity_errors [of "[RInteger 1]" fresh_factory fresh_world "[RHash [] RNil]"]
    arity_errors [of "[RInteger 1, Time_class, RHash [] RNil, RNil]" fresh_factory fresh_world
      "[RHash [] RNil]"]
    arity_errors [of "[]" fresh_factory empty_world "[RHash [] RNil]"]
  by simp

text \<open>C9. In a call with three arguments whose third argument is not a hash, the error
  raised is the \<open>ArgumentError\<close> for the options, whatever the code and the associated type
  are: also when the code is out of range or not convertible, and when the type is not a
  class. The world is left as it was.\<close>

theorem options_check_precedes:
  "length argv = 3 \<Longrightarrow> rb_type (argv ! 2) \<noteq> T_HASH \<Longrightarrow>
   Factory_register_type argv (Some fc) w =
     (Inl (Raise ArgumentError (Expected_Hash_but_found (argv ! 2))), w)"
  by (rule register_type_options)

theorem options_check_precedes_witness:
  "to_integer (RInteger 200) = Some 200 \<and>
   rb_type Comparable_module \<noteq> T_CLASS \<and>
   rb_type (RInteger 5) \<noteq> T_HASH \<and>
   Factory_register_type [RInteger 200, Comparable_module, RInteger 5] (Some fresh_factory)
       fresh_world =
     (Inl (Raise ArgumentError (Expected_Hash_but_found (RInteger 5))), fresh_world) \<and>
   Factory_register_type [RString ''x'', Time_class, RString ''y''] (Some fresh_factory)
       fresh_world =
     (Inl (Raise ArgumentError (Expected_Hash_but_found (RString ''y''))), fresh_world)"
  using options_check_precedes [of "[RInteger 200, Comparable_module, RInteger 5]"
      fresh_factory fresh_world]
    options_check_precedes [of "[RString ''x'', Time_class, RString ''y'']"
      fresh_factory fresh_world]
  by (simp add: Comparable_module_def)

text \<open>C1. A call to \<open>register_type\<close> that fails with a validation error (wrong number of
  arguments, options that are not a hash, code out of range, associated type not a class)
  leaves the world, and so the factory's encode registry and decode registry, exactly as
  they were before the call.\<close>

theorem validation_failure_leaves_registries:
  assumes "fst (Factory_register_type argv (Some fc) w) = Inl e"
    and "validation_error e"
  shows "snd (Factory_register_type argv (Some fc) w) = w \<and>
    pk_entries (snd (Factory_register_type argv (Some fc) w)) (pkrg fc) = pk_entries w (pkrg fc) \<and>
    uk_entries (snd (Factory_register_type argv (Some fc) w)) (ukrg fc) = uk_entries w (ukrg fc)"
  using register_type_failure_frame [OF assms(1)] by simp

theorem validation_failure_leaves_registries_witness:
  "fst (Factory_register_type [RInteger 200, Time_class] (Some fresh_factory) fresh_world) =
     Inl (Raise RangeError (Too_big_for_signed_char 200)) \<and>
   validation_error (Raise RangeError (Too_big_for_signed_char 200)) \<and>
   snd (Factory_register_type [RInteger 200, Time_class] (Some fresh_factory) fresh_world) =
     fresh_world \<and>
   fst (Factory_register_type [RInteger 1, Comparable_module] (Some fresh_factory) fresh_world) =
     Inl (Raise ArgumentError (Expected_Class_but_found Comparable_module)) \<and>
   snd (Factory_register_type [RInteger 1, Comparable_module] (Some fresh_factory) fresh_world) =
     fresh_world \<and>
   fst (Factory_register_type [RInteger 1, Time_class, RNil] (Some fresh_factory) fresh_world) =
     Inl (Raise ArgumentError (Expected_Hash_but_found RNil)) \<and>
   snd (Factory_register_type [RInteger 1, Time_class, RNil] (Some fresh_factory) fresh_world) =
     fresh_world \<and>
   fst (Factory_register_type [RInteger 1] (Some fresh_factory) fresh_world) =
     Inl (Raise ArgumentError (Wrong_number_of_arguments 1 ''2..3'')) \<and>
   snd (Factory_register_type [RInteger 1] (Some fresh_factory) fresh_world) = fresh_world"
proof -
  have a: "fst (Factory_register_type [RInteger 200, Time_class] (Some fresh_factory) fresh_world) =
     Inl (Raise RangeError (Too_big_for_signed_char 200))"
    by (simp add: eval_defs)
  have b: "fst (Factory_register_type [RInteger 1, Comparable_module] (Some fresh_factory)
      fresh_world) = Inl (Raise ArgumentError (Expected_Class_but_found Comparable_module))"
    by (simp add: eval_defs)
  have c: "fst (Factory_register_type [RInteger 1, Time_class, RNil] (Some fresh_factory)
      fresh_world) = Inl (Raise ArgumentError (Expected_Hash_but_found RNil))"
    by (simp add: eval_defs)
  have d: "fst (Factory_register_type [RInteger 1] (Some fresh_factory) fresh_world) =
     Inl (Raise ArgumentError (Wrong_number_of_arguments 1 ''2..3''))"
    by (simp add: eval_defs)
  show ?thesis
    using a b c d
      validation_failure_leaves_registries [OF a]
      validation_failure_leaves_registries [OF b]
      validation_failure_leaves_registries [OF c]
      validation_failure_leaves_registries [OF d]
    by simp
qed

text \<open>C3, as the code has it. In a call with two arguments, or with three arguments of
  which the third is a hash, a code whose integer value lies outside \<open>[-128, 127]\<close> makes
  the call fail with a \<open>RangeError\<close> and leaves the world as it was. In every call with two
  or three arguments a code whose integer value lies inside that range raises no
  \<open>RangeError\<close>.\<close>

theorem range_check:
  "(args_accepted argv \<and> to_integer (argv ! 0) = Some n \<and> (n < - 128 \<or> 127 < n) \<longrightarrow>
      (\<exists>m. Factory_register_type argv (Some fc) w = (Inl (Raise RangeError m), w))) \<and>
   ((length argv = 2 \<or> length argv = 3) \<and> to_integer (argv ! 0) = Some n \<and>
      - 128 \<le> n \<and> n \<le> 127 \<longrightarrow>
      (\<forall>m. fst (Factory_register_type argv (Some fc) w) \<noteq> Inl (Raise RangeError m)))"
proof (intro conjI impI allI)
  assume a: "args_accepted argv \<and> to_integer (argv ! 0) = Some n \<and> (n < - 128 \<or> 127 < n)"
  show "\<exists>m. Factory_register_type argv (Some fc) w = (Inl (Raise RangeError m), w)"
  proof (cases "n < INT_MIN \<or> INT_MAX < n")
    case True
    with a have "rb_num2int (argv ! 0) = Inl (Raise RangeError (Too_big_to_convert_to_int n))"
      by (simp add: rb_num2int_def)
    with a show ?thesis by (auto simp: register_type_conversion)
  next
    case False
    with a have "rb_num2int (argv ! 0) = Inr n"
      by (simp add: rb_num2int_def)
    with a show ?thesis by (auto simp: register_type_range)
  qed
next
  fix m
  assume b: "(length argv = 2 \<or> length argv = 3) \<and> to_integer (argv ! 0) = Some n \<and>
      - 128 \<le> n \<and> n \<le> 127"
  then have num: "rb_num2int (argv ! 0) = Inr n"
    by (simp add: rb_num2int_small)
  show "fst (Factory_register_type argv (Some fc) w) \<noteq> Inl (Raise RangeError m)"
  proof (cases "args_accepted argv")
    case False
    with b have "length argv = 3" "rb_type (argv ! 2) \<noteq> T_HASH"
      by (auto simp: args_accepted_def)
    then show ?thesis by (simp add: register_type_options)
  next
    case acc: True
    show ?thesis
    proof (cases "rb_type (argv ! 1) = T_CLASS")
      case False
      with acc num b show ?thesis by (simp add: register_type_class)
    next
      case True
      with acc num b show ?thesis
        by (auto dest: register_type_checked_error)
    qed
  qed
qed

theorem range_check_witness:
  "(\<exists>m. Factory_register_type [RInteger 200, Time_class] (Some fresh_factory) fresh_world =
      (Inl (Raise RangeError m), fresh_world)) \<and>
   (\<exists>m. Factory_register_type [RInteger (- 129), Time_class, RHash [] RNil] (Some fresh_factory)
      fresh_world = (Inl (Raise RangeError m), fresh_world)) \<and>
   (\<exists>m. Factory_register_type [RInteger (2 ^ 40), Time_class] (Some fresh_factory) fresh_world =
      (Inl (Raise RangeError m), fresh_world)) \<and>
   (\<forall>m. fst (Factory_register_type [RInteger 127, Time_class] (Some fresh_factory) fresh_world) \<noteq>
      Inl (Raise RangeError m)) \<and>
   (\<forall>m. fst (Factory_register_type [RInteger (- 128), Time_class, RInteger 5] (Some fresh_factory)
      fresh_world) \<noteq> Inl (Raise RangeError m))"
  using range_check [of "[RInteger 200, Time_class]" 200 fresh_factory fresh_world]
    range_check [of "[RInteger (- 129), Time_class, RHash [] RNil]" "- 129" fresh_factory
      fresh_world]
    range_check [of "[RInteger (2 ^ 40), Time_class]" "2 ^ 40" fresh_factory fresh_world]
    range_check [of "[RInteger 127, Time_class]" 127 fresh_factory fresh_world]
    range_check [of "[RInteger (- 128), Time_class, RInteger 5]" "- 128" fresh_factory
      fresh_world]
  by (simp add: args_accepted_def)

text \<open>C3 as stated fails: with three arguments of which the third is not a hash, a code
  of 200 does not give a \<open>RangeError\<close> but the \<open>ArgumentError\<close> for the options.\<close>

theorem range_check_counterexample:
  "length [RInteger 200, Time_class, RInteger 5] = 3 \<and>
   to_integer (RInteger 200) = Some 200 \<and> (127 :: int) < 200 \<and>
   Factory_register_type [RInteger 200, Time_class, RInteger 5] (Some fresh_factory)
       fresh_world =
     (Inl (Raise ArgumentError (Expected_Hash_but_found (RInteger 5))), fresh_world)"
  by (simp add: eval_defs)

text \<open>C6. The code is validated before the associated type, as in the spec's own order
  of steps, so the claim is about the calls whose code has passed: it converts to an
  integer within \<open>[-128, 127]\<close>. In every such call with two or three arguments an
  associated type that is not a class (a module, or a value that is no type at all) makes
  the call fail with an \<open>ArgumentError\<close> and leaves the world as it was: the one of the
  class check, or, when a third argument is given that is not a hash, the one of the
  options, which are looked at first. A call with any other number of arguments fails with
  an \<open>ArgumentError\<close> as well. In every call with two or three arguments an associated type
  that is a class does not raise the error of the class check.\<close>

theorem class_check:
  "(length argv \<noteq> 2 \<and> length argv \<noteq> 3 \<longrightarrow>
      (\<exists>m. Factory_register_type argv (Some fc) w = (Inl (Raise ArgumentError m), w))) \<and>
   ((length argv = 2 \<or> length argv = 3) \<and>
      to_integer (argv ! 0) = Some n \<and> - 128 \<le> n \<and> n \<le> 127 \<and>
      rb_type (argv ! 1) \<noteq> T_CLASS \<longrightarrow>
      Factory_register_type argv (Some fc) w =
        (Inl (Raise ArgumentError
           (if length argv = 3 \<and> rb_type (argv ! 2) \<noteq> T_HASH
            then Expected_Hash_but_found (argv ! 2)
            else Expected_Class_but_found (argv ! 1))), w)) \<and>
   ((length argv = 2 \<or> length argv = 3) \<and> rb_type (argv ! 1) = T_CLASS \<longrightarrow>
      (\<forall>v. fst (Factory_register_type argv (Some fc) w) \<noteq>
         Inl (Raise ArgumentError (Expected_Class_but_found v))))"
proof (intro conjI impI allI)
  assume "length argv \<noteq> 2 \<and> length argv \<noteq> 3"
  then show "\<exists>m. Factory_register_type argv (Some fc) w = (Inl (Raise ArgumentError m), w)"
    by (simp add: register_type_arity)
next
  assume a: "(length argv = 2 \<or> length argv = 3) \<and>
      to_integer (argv ! 0) = Some n \<and> - 128 \<le> n \<and> n \<le> 127 \<and>
      rb_type (argv ! 1) \<noteq> T_CLASS"
  show "Factory_register_type argv (Some fc) w =
        (Inl (Raise ArgumentError
           (if length argv = 3 \<and> rb_type (argv ! 2) \<noteq> T_HASH
            then Expected_Hash_but_found (argv ! 2)
            else Expected_Class_but_found (argv ! 1))), w)"
  proof (cases "length argv = 3 \<and> rb_type (argv ! 2) \<noteq> T_HASH")
    case True
    then show ?thesis by (simp add: register_type_options)
  next
    case False
    with a have "args_accepted argv"
      by (auto simp: args_accepted_def)
    with a False show ?thesis
      by (simp add: register_type_class rb_num2int_small)
  qed
next
  fix v
  assume b: "(length argv = 2 \<or> length argv = 3) \<and> rb_type (argv ! 1) = T_CLASS"
  show "fst (Factory_register_type argv (Some fc) w) \<noteq>
         Inl (Raise ArgumentError (Expected_Class_but_found v))"
  proof (cases "args_accepted argv")
    case False
    with b have "length argv = 3" "rb_type (argv ! 2) \<noteq> T_HASH"
      by (auto simp: args_accepted_def)
    then show ?thesis by (simp add: register_type_options)
  next
    case acc: True
    show ?thesis
    proof (cases "rb_num2int (argv ! 0)")
      case (Inl e)
      then have "fst (Factory_register_type argv (Some fc) w) = Inl e"
        using acc by (simp add: register_type_conversion)
      moreover have "e \<noteq> Raise ArgumentError (Expected_Class_but_found v)"
        using Inl by (auto simp: rb_num2int_def split: option.splits if_splits)
      ultimately show ?thesis by simp
    next
      case (Inr n')
      show ?thesis
      proof (cases "n' < - 128 \<or> 127 < n'")
        case True
        with acc Inr show ?thesis by (simp add: register_type_range)
      next
        case False
        with acc Inr b show ?thesis
          by (auto dest: register_type_checked_error)
      qed
    qed
  qed
qed

theorem class_check_witness:
  "Factory_register_type [RInteger 1, Comparable_module] (Some fresh_factory) fresh_world =
     (Inl (Raise ArgumentError (Expected_Class_but_found Comparable_module)), fresh_world) \<and>
   Factory_register_type [RInteger 1, RString ''Time'', RHash [] RNil] (Some fresh_factory)
       fresh_world =
     (Inl (Raise ArgumentError (Expected_Class_but_found (RString ''Time''))), fresh_world) \<and>
   Factory_register_type [RInteger 1, Comparable_module, RInteger 5] (Some fresh_factory)
       fresh_world =
     (Inl (Raise ArgumentError (Expected_Hash_but_found (RInteger 5))), fresh_world) \<and>
   (\<exists>m. Factory_register_type [RInteger 1, Comparable_module, RHash [] RNil, RNil]
       (Some fresh_factory) fresh_world = (Inl (Raise ArgumentError m), fresh_world)) \<and>
   (\<forall>v. fst (Factory_register_type [RInteger 1, Time_class] (Some fresh_factory) fresh_world) \<noteq>
      Inl (Raise ArgumentError (Expected_Class_but_found v)))"
  using class_check [of "[RInteger 1, Comparable_module]" fresh_factory fresh_world 1]
    class_check [of "[RInteger 1, RString ''Time'', RHash [] RNil]" fresh_factory fresh_world 1]
    class_check [of "[RInteger 1, Comparable_module, RInteger 5]" fresh_factory fresh_world 1]
    class_check [of "[RInteger 1, Comparable_module, RHash [] RNil, RNil]" fresh_factory
      fresh_world 1]
    class_check [of "[RInteger 1, Time_class]" fresh_factory fresh_world 1]
  by (simp add: Comparable_module_def Time_class_def)

text \<open>C10, as the code has it. In a call with two arguments, or with three arguments of
  which the third is a hash, the first argument is converted to an integer before the
  range check: a first argument with no integer conversion makes the call fail with a
  \<open>TypeError\<close>, not a \<open>RangeError\<close>, and leaves the world as it was; a first argument that
  converts to an integer outside \<open>[-128, 127]\<close> makes it fail with a \<open>RangeError\<close>.\<close>

theorem code_conversion:
  "(args_accepted argv \<and> to_integer (argv ! 0) = None \<longrightarrow>
      Factory_register_type argv (Some fc) w =
        (Inl (Raise TypeError (No_implicit_conversion_into_Integer (argv ! 0))), w)) \<and>
   (args_accepted argv \<and> to_integer (argv ! 0) = Some n \<and> INT_MIN \<le> n \<and> n \<le> INT_MAX \<and>
      (n < - 128 \<or> 127 < n) \<longrightarrow>
      Factory_register_type argv (Some fc) w =
        (Inl (Raise RangeError (Too_big_for_signed_char n)), w))"
proof (intro conjI impI)
  assume "args_accepted argv \<and> to_integer (argv ! 0) = None"
  then show "Factory_register_type argv (Some fc) w =
        (Inl (Raise TypeError (No_implicit_conversion_into_Integer (argv ! 0))), w)"
    by (simp add: register_type_conversion rb_num2int_not_convertible)
next
  assume a: "args_accepted argv \<and> to_integer (argv ! 0) = Some n \<and> INT_MIN \<le> n \<and>
      n \<le> INT_MAX \<and> (n < - 128 \<or> 127 < n)"
  then have "rb_num2int (argv ! 0) = Inr n"
    by (auto simp: rb_num2int_def)
  with a show "Factory_register_type argv (Some fc) w =
        (Inl (Raise RangeError (Too_big_for_signed_char n)), w)"
    by (auto simp: register_type_range)
qed

theorem code_conversion_witness:
  "Factory_register_type [RString ''7'', Time_class] (Some fresh_factory) fresh_world =
     (Inl (Raise TypeError (No_implicit_conversion_into_Integer (RString ''7''))), fresh_world) \<and>
   Factory_register_type [RNil, Time_class, RHash [] RNil] (Some fresh_factory) fresh_world =
     (Inl (Raise TypeError (No_implicit_conversion_into_Integer RNil)), fresh_world) \<and>
   Factory_register_type [RObject 1 [(''to_int'', RInteger 300)], Time_class]
       (Some fresh_factory) fresh_world =
     (Inl (Raise RangeError (Too_big_for_signed_char 300)), fresh_world)"
  using code_conversion [of "[RString ''7'', Time_class]" fresh_factory fresh_world 0]
    code_conversion [of "[RNil, Time_class, RHash [] RNil]" fresh_factory fresh_world 0]
    code_conversion [of "[RObject 1 [(''to_int'', RInteger 300)], Time_class]"
      fresh_factory fresh_world 300]
  by (simp add: args_accepted_def INT_MIN_def INT_MAX_def)

text \<open>C10 as stated fails: with three arguments of which the third is not a hash, a first
  argument with no integer conversion gives the \<open>ArgumentError\<close> for the options, not a
  \<open>TypeError\<close>.\<close>

theorem code_conversion_counterexample:
  "length [RString ''7'', Time_class, RInteger 5] = 3 \<and>
   to_integer (RString ''7'') = None \<and>
   Factory_register_type [RString ''7'', Time_class, RInteger 5] (Some fresh_factory)
       fresh_world =
     (Inl (Raise ArgumentError (Expected_Hash_but_found (RInteger 5))), fresh_world)"
  by (simp add: eval_defs)

text \<open>C4, as the code has it. In the two-argument form, with a code that converts to an
  integer within \<open>[-128, 127]\<close> and a class as the associated type, the packer hook is the
  proc of the symbol \<open>to_msgpack_ext\<close>, which looks the method up only when it is called:
  the instance-level methods of the class play no part in the registration. The unpacker
  hook is the method object for \<open>from_msgpack_ext\<close> of the class, looked up (not invoked)
  at registration: a class with that type-level method registers, and a class without it
  makes the call fail with a \<open>NameError\<close> and leaves the world as it was.\<close>

theorem two_argument_hooks:
  assumes "to_integer code = Some n" and "- 128 \<le> n" and "n \<le> 127"
    and "pk_live w (pkrg fc)" and "uk_live w (ukrg fc)"
  shows
   "(''from_msgpack_ext'' \<in> fst ` set ms \<longrightarrow>
       fst (Factory_register_type [code, RClass name ms ims] (Some fc) w) = Inr RNil \<and>
       map_of (pk_entries (snd (Factory_register_type [code, RClass name ms ims] (Some fc) w))
          (pkrg fc)) (RClass name ms ims) = Some (n, RSymProc ''to_msgpack_ext'') \<and>
       map_of (uk_entries (snd (Factory_register_type [code, RClass name ms ims] (Some fc) w))
          (ukrg fc)) n = Some (RMethod (RClass name ms ims) ''from_msgpack_ext'')) \<and>
    (''from_msgpack_ext'' \<notin> fst ` set ms \<longrightarrow>
       Factory_register_type [code, RClass name ms ims] (Some fc) w =
         (Inl (Raise NameError (Undefined_method ''from_msgpack_ext'' (RClass name ms ims))), w))"
proof -
  let ?cls = "RClass name ms ims"
  let ?argv = "[code, ?cls]"
  have acc: "args_accepted ?argv" by (simp add: args_accepted_def)
  have num: "rb_num2int (?argv ! 0) = Inr n"
    using assms(1-3) by (simp add: rb_num2int_small)
  have cls: "rb_type (?argv ! 1) = T_CLASS" by simp
  have resp: "responds_to ?cls ''from_msgpack_ext'' = (''from_msgpack_ext'' \<in> fst ` set ms)"
    by (simp add: responds_to_def)
  show ?thesis
  proof (intro conjI impI)
    assume "''from_msgpack_ext'' \<notin> fst ` set ms"
    then show "Factory_register_type ?argv (Some fc) w =
         (Inl (Raise NameError (Undefined_method ''from_msgpack_ext'' ?cls)), w)"
      using register_type_checked [OF acc num assms(2,3) cls, of fc w] resp
      by (simp add: two_argument_procs)
  next
    assume "''from_msgpack_ext'' \<in> fst ` set ms"
    then have up: "unpacker_proc_of ?argv = Inr (RMethod ?cls ''from_msgpack_ext'')"
      using resp by (simp add: two_argument_procs)
    note ent = register_type_entries [OF acc num assms(2,3) cls two_argument_procs(1) up
        assms(4,5)]
    show "fst (Factory_register_type ?argv (Some fc) w) = Inr RNil"
      using ent(1) .
    show "map_of (pk_entries (snd (Factory_register_type ?argv (Some fc) w)) (pkrg fc)) ?cls =
        Some (n, RSymProc ''to_msgpack_ext'')"
      using ent(2) by (simp add: update_conv')
    show "map_of (uk_entries (snd (Factory_register_type ?argv (Some fc) w)) (ukrg fc)) n =
        Some (RMethod ?cls ''from_msgpack_ext'')"
      using ent(3) by (simp add: update_conv')
  qed
qed

theorem two_argument_hooks_witness:
  "fst (Factory_register_type
      [RInteger 1, RClass ''Time'' [(''from_msgpack_ext'', RNil)] [''to_msgpack_ext'']]
      (Some fresh_factory) fresh_world) = Inr RNil \<and>
   fst (Factory_register_type [RInteger 1, RClass ''Stamp'' [(''from_msgpack_ext'', RNil)] []]
      (Some fresh_factory) fresh_world) = Inr RNil \<and>
   Factory_register_type [RInteger 1, RClass ''Point'' [(''new'', RNil)] [''to_msgpack_ext'']]
      (Some fresh_factory) fresh_world =
     (Inl (Raise NameError (Undefined_method ''from_msgpack_ext''
        (RClass ''Point'' [(''new'', RNil)] [''to_msgpack_ext'']))), fresh_world)"
proof -
  have live: "pk_live fresh_world (pkrg fresh_factory)" "uk_live fresh_world (ukrg fresh_factory)"
    by (simp_all add: pk_live_def uk_live_def sample_defs)
  have num: "to_integer (RInteger 1) = Some 1" "- 128 \<le> (1 :: int)" "(1 :: int) \<le> 127"
    by simp_all
  show ?thesis
    using two_argument_hooks [OF num live, of "[(''from_msgpack_ext'', RNil)]" "''Time''"
        "[''to_msgpack_ext'']"]
      two_argument_hooks [OF num live, of "[(''from_msgpack_ext'', RNil)]" "''Stamp''" "[]"]
      two_argument_hooks [OF num live, of "[(''new'', RNil)]" "''Point''" "[''to_msgpack_ext'']"]
    by simp
qed

text \<open>C4 as stated fails: registering a class that lacks \<open>from_msgpack_ext\<close> does not
  succeed.\<close>

theorem two_argument_hooks_counterexample:
  "\<not> responds_to Point_class ''from_msgpack_ext'' \<and>
   rb_type Point_class = T_CLASS \<and>
   Factory_register_type [RInteger 1, Point_class] (Some fresh_factory) fresh_world =
     (Inl (Raise NameError (Undefined_method ''from_msgpack_ext'' Point_class)), fresh_world)"
  by (simp add: eval_defs)

text \<open>C5, as the code has it. After a successful call in the three-argument form, the
  encode registry maps the class to the code and the packer hook, and the decode registry
  maps the code to the unpacker hook, where: a packer entry that reads as nil (absent from
  a hash whose default is nil, or nil itself) gives a nil hook, and any other packer entry
  gives the result of its \<open>to_proc\<close> (a proc is passed through, a symbol becomes its proc);
  an unpacker entry that reads as nil gives a nil hook, a symbol or string gives the
  method object of that name of the associated class, and any other unpacker entry gives
  the method object for its \<open>call\<close> method, so it has to respond to \<open>call\<close> rather than to
  \<open>to_proc\<close>.\<close>

theorem three_argument_hooks:
  assumes "Factory_register_type [code, cls, opts] (Some fc) w = (Inr r, w')"
    and "pk_live w (pkrg fc)" and "uk_live w (ukrg fc)"
  shows
   "let packer_arg = rb_hash_aref opts (RSymbol ''packer'');
        unpacker_arg = rb_hash_aref opts (RSymbol ''unpacker'')
    in \<exists>n packer_proc unpacker_proc.
      to_integer code = Some n \<and>
      map_of (pk_entries w' (pkrg fc)) cls = Some (n, packer_proc) \<and>
      map_of (uk_entries w' (ukrg fc)) n = Some unpacker_proc \<and>
      (packer_arg = RNil \<longrightarrow> packer_proc = RNil) \<and>
      (packer_arg \<noteq> RNil \<longrightarrow> rb_funcall packer_arg ''to_proc'' [] = Inr packer_proc) \<and>
      (\<forall>h. packer_arg = RProc h \<longrightarrow> packer_proc = RProc h) \<and>
      (\<forall>s. packer_arg = RSymbol s \<longrightarrow> packer_proc = RSymProc s) \<and>
      (unpacker_arg = RNil \<longrightarrow> unpacker_proc = RNil) \<and>
      (\<forall>s. unpacker_arg = RSymbol s \<or> unpacker_arg = RString s \<longrightarrow>
         responds_to cls s \<and> unpacker_proc = RMethod cls s) \<and>
      (unpacker_arg \<noteq> RNil \<and> rb_type unpacker_arg \<noteq> T_SYMBOL \<and>
         rb_type unpacker_arg \<noteq> T_STRING \<longrightarrow>
         responds_to unpacker_arg ''call'' \<and> unpacker_proc = RMethod unpacker_arg ''call'')"
proof -
  let ?argv = "[code, cls, opts]"
  from assms(1) obtain n pp up where
    acc: "args_accepted ?argv" and num: "rb_num2int (?argv ! 0) = Inr n"
    and rng: "- 128 \<le> n" "n \<le> 127" and cls: "rb_type (?argv ! 1) = T_CLASS"
    and pp: "packer_proc_of ?argv = Inr pp" and up: "unpacker_proc_of ?argv = Inr up"
    by (rule register_type_success)
  note ent = register_type_entries [OF acc num rng cls pp up assms(2,3)]
  have w': "w' = snd (Factory_register_type ?argv (Some fc) w)"
    using assms(1) by simp
  have "to_integer code = Some n"
    using num by (simp add: rb_num2int_Inr)
  moreover have "map_of (pk_entries w' (pkrg fc)) cls = Some (n, pp)"
    using ent(2) w' by (simp add: update_conv')
  moreover have "map_of (uk_entries w' (ukrg fc)) n = Some up"
    using ent(3) w' by (simp add: update_conv')
  ultimately show ?thesis
    unfolding Let_def
    using packer_proc_of_cases [OF pp] unpacker_proc_of_cases [OF up]
    unfolding three_argument_args
    by (intro exI [of _ n] exI [of _ pp] exI [of _ up]) simp
qed

theorem three_argument_hooks_witness:
  "Factory_register_type
     [RInteger 1, Time_class,
      RHash [(RSymbol ''packer'', RProc 3), (RSymbol ''unpacker'', RString ''from_msgpack_ext'')]
        RNil]
     (Some fresh_factory) fresh_world =
     (Inr RNil,
      \<lparr>pk_heap = [Some [(Time_class, 1, RProc 3)]],
       uk_heap = [Some [(1, RMethod Time_class ''from_msgpack_ext'')]]\<rparr>) \<and>
   Factory_register_type
     [RInteger 2, Time_class, RHash [(RSymbol ''unpacker'', RProc 4)] RNil]
     (Some fresh_factory) fresh_world =
     (Inr RNil,
      \<lparr>pk_heap = [Some [(Time_class, 2, RNil)]],
       uk_heap = [Some [(2, RMethod (RProc 4) ''call'')]]\<rparr>) \<and>
   (\<exists>n packer_proc unpacker_proc.
      map_of (pk_entries
         \<lparr>pk_heap = [Some [(Time_class, 1, RProc 3)]],
          uk_heap = [Some [(1, RMethod Time_class ''from_msgpack_ext'')]]\<rparr>
         (pkrg fresh_factory)) Time_class = Some (n, packer_proc) \<and>
      map_of (uk_entries
         \<lparr>pk_heap = [Some [(Time_class, 1, RProc 3)]],
          uk_heap = [Some [(1, RMethod Time_class ''from_msgpack_ext'')]]\<rparr>
         (ukrg fresh_factory)) n = Some unpacker_proc \<and>
      packer_proc = RProc 3 \<and> unpacker_proc = RMethod Time_class ''from_msgpack_ext'') \<and>
   (\<exists>n packer_proc unpacker_proc.
      map_of (pk_entries
         \<lparr>pk_heap = [Some [(Time_class, 2, RNil)]],
          uk_heap = [Some [(2, RMethod (RProc 4) ''call'')]]\<rparr>
         (pkrg fresh_factory)) Time_class = Some (n, packer_proc) \<and>
      map_of (uk_entries
         \<lparr>pk_heap = [Some [(Time_class, 2, RNil)]],
          uk_heap = [Some [(2, RMethod (RProc 4) ''call'')]]\<rparr>
         (ukrg fresh_factory)) n = Some unpacker_proc \<and>
      packer_proc = RNil \<and> unpacker_proc = RMethod (RProc 4) ''call'')"
proof -
  have live: "pk_live fresh_world (pkrg fresh_factory)" "uk_live fresh_world (ukrg fresh_factory)"
    by (simp_all add: pk_live_def uk_live_def sample_defs)
  have a: "Factory_register_type
     [RInteger 1, Time_class,
      RHash [(RSymbol ''packer'', RProc 3), (RSymbol ''unpacker'', RString ''from_msgpack_ext'')]
        RNil]
     (Some fresh_factory) fresh_world =
     (Inr RNil,
      \<lparr>pk_heap = [Some [(Time_class, 1, RProc 3)]],
       uk_heap = [Some [(1, RMethod Time_class ''from_msgpack_ext'')]]\<rparr>)"
    by (simp add: eval_defs)
  have b: "Factory_register_type
     [RInteger 2, Time_class, RHash [(RSymbol ''unpacker'', RProc 4)] RNil]
     (Some fresh_factory) fresh_world =
     (Inr RNil,
      \<lparr>pk_heap = [Some [(Time_class, 2, RNil)]],
       uk_heap = [Some [(2, RMethod (RProc 4) ''call'')]]\<rparr>)"
    by (simp add: eval_defs)
  have c: "\<exists>n packer_proc unpacker_proc.
      map_of (pk_entries
         \<lparr>pk_heap = [Some [(Time_class, 1, RProc 3)]],
          uk_heap = [Some [(1, RMethod Time_class ''from_msgpack_ext'')]]\<rparr>
         (pkrg fresh_factory)) Time_class = Some (n, packer_proc) \<and>
      map_of (uk_entries
         \<lparr>pk_heap = [Some [(Time_class, 1, RProc 3)]],
          uk_heap = [Some [(1, RMethod Time_class ''from_msgpack_ext'')]]\<rparr>
         (ukrg fresh_factory)) n = Some unpacker_proc \<and>
      packer_proc = RProc 3 \<and> unpacker_proc = RMethod Time_class ''from_msgpack_ext''"
    using three_argument_hooks [OF a live] by (auto simp: Let_def)
  have d: "\<exists>n packer_proc unpacker_proc.
      map_of (pk_entries
         \<lparr>pk_heap = [Some [(Time_class, 2, RNil)]],
          uk_heap = [Some [(2, RMethod (RProc 4) ''call'')]]\<rparr>
         (pkrg fresh_factory)) Time_class = Some (n, packer_proc) \<and>
      map_of (uk_entries
         \<lparr>pk_heap = [Some [(Time_class, 2, RNil)]],
          uk_heap = [Some [(2, RMethod (RProc 4) ''call'')]]\<rparr>
         (ukrg fresh_factory)) n = Some unpacker_proc \<and>
      packer_proc = RNil \<and> unpacker_proc = RMethod (RProc 4) ''call''"
    using three_argument_hooks [OF b live] by (auto simp: Let_def)
  show ?thesis
    using a b c d by blast
qed

text \<open>C5 as stated fails: an unpacker entry is not normalised the way a packer entry
  is. An object that responds to \<open>call\<close> but not to \<open>to_proc\<close> is accepted as the unpacker
  entry and rejected as the packer entry, and one and the same proc is stored as itself
  on the encode side and as the method object for its \<open>call\<close> on the decode side.\<close>

theorem three_argument_hooks_counterexample:
  "fst (Factory_register_type
      [RInteger 1, Time_class, RHash [(RSymbol ''unpacker'', RObject 1 [(''call'', RNil)])] RNil]
      (Some fresh_factory) fresh_world) = Inr RNil \<and>
   Factory_register_type
      [RInteger 1, Time_class, RHash [(RSymbol ''packer'', RObject 1 [(''call'', RNil)])] RNil]
      (Some fresh_factory) fresh_world =
     (Inl (Raise NoMethodError (Undefined_method ''to_proc'' (RObject 1 [(''call'', RNil)]))),
      fresh_world) \<and>
   Factory_register_type
      [RInteger 1, Time_class,
       RHash [(RSymbol ''packer'', RProc 4), (RSymbol ''unpacker'', RProc 4)] RNil]
      (Some fresh_factory) fresh_world =
     (Inr RNil,
      \<lparr>pk_heap = [Some [(Time_class, 1, RProc 4)]],
       uk_heap = [Some [(1, RMethod (RProc 4) ''call'')]]\<rparr>)"
  by (simp add: eval_defs)

text \<open>C2. Snapshot isolation. From a factory with live registries a packer \<open>p1\<close> and an
  unpacker \<open>u1\<close> are made, then a registration succeeds, then a packer \<open>p2\<close> and an
  unpacker \<open>u2\<close> are made. In the end the registries of \<open>p1\<close> and \<open>u1\<close> still hold exactly
  the entries that the factory had when they were made; the registries of \<open>p2\<close> and \<open>u2\<close>
  hold the factory's entries after the registration, among them the new mapping; and the
  registries of the factory, of \<open>p1\<close> and of \<open>p2\<close> (of \<open>u1\<close> and of \<open>u2\<close>) are three
  different live handles, so no two of them share storage.\<close>

theorem snapshot_isolation:
  assumes live: "pk_live w (pkrg fc)" "uk_live w (ukrg fc)"
    and p1: "Factory_packer pargs1 (Some fc) w = (Inr p1, w1)"
    and u1: "Factory_unpacker uargs1 (Some fc) w1 = (Inr u1, w2)"
    and reg: "Factory_register_type argv (Some fc) w2 = (Inr r, w3)"
    and p2: "Factory_packer pargs2 (Some fc) w3 = (Inr p2, w4)"
    and u2: "Factory_unpacker uargs2 (Some fc) w4 = (Inr u2, w5)"
  shows
   "pk_entries w5 (pk_ext_registry p1) = pk_entries w (pkrg fc) \<and>
    uk_entries w5 (uk_ext_registry u1) = uk_entries w (ukrg fc) \<and>
    pk_entries w5 (pk_ext_registry p2) = pk_entries w5 (pkrg fc) \<and>
    uk_entries w5 (uk_ext_registry u2) = uk_entries w5 (ukrg fc) \<and>
    (\<exists>n packer_proc unpacker_proc.
       to_integer (argv ! 0) = Some n \<and>
       packer_proc_of argv = Inr packer_proc \<and> unpacker_proc_of argv = Inr unpacker_proc \<and>
       map_of (pk_entries w5 (pk_ext_registry p2)) (argv ! 1) = Some (n, packer_proc) \<and>
       map_of (uk_entries w5 (uk_ext_registry u2)) n = Some unpacker_proc) \<and>
    distinct [pkrg fc, pk_ext_registry p1, pk_ext_registry p2] \<and>
    distinct [ukrg fc, uk_ext_registry u1, uk_ext_registry u2] \<and>
    pk_live w5 (pkrg fc) \<and> pk_live w5 (pk_ext_registry p1) \<and> pk_live w5 (pk_ext_registry p2) \<and>
    uk_live w5 (ukrg fc) \<and> uk_live w5 (uk_ext_registry u1) \<and> uk_live w5 (uk_ext_registry u2)"
proof -
  note P1 = Factory_packer_effect [OF p1]
  note U1 = Factory_unpacker_effect [OF u1]
  note R = register_type_effect [OF reg]
  note P2 = Factory_packer_effect [OF p2]
  note U2 = Factory_unpacker_effect [OF u2]
  have fc_lt: "pkrg fc < length (pk_heap w)" "ukrg fc < length (uk_heap w)"
    using live by (simp_all add: pk_live_def uk_live_def)
  have len: "length (pk_heap w3) = Suc (Suc (length (pk_heap w)))"
    "length (uk_heap w3) = Suc (Suc (length (uk_heap w)))"
    using P1(2) P1(5) U1(2) U1(5) R(1,2) by simp_all
  have ne_p: "pk_ext_registry p1 \<noteq> pkrg fc" "pk_ext_registry p2 \<noteq> pkrg fc"
    "pk_ext_registry p1 \<noteq> pk_ext_registry p2"
    using fc_lt P1(1) P2(1) len by simp_all
  have ne_u: "uk_ext_registry u1 \<noteq> ukrg fc" "uk_ext_registry u2 \<noteq> ukrg fc"
    "uk_ext_registry u1 \<noteq> uk_ext_registry u2"
    using fc_lt U1(1) U2(1) P1(5) P2(5) len by simp_all
  \<comment> \<open>liveness along the way\<close>
  have l1: "pk_live w1 (pkrg fc)" "uk_live w1 (ukrg fc)"
    using P1(6) [OF live(1)] live(2) P1(5) by (simp_all add: uk_live_def)
  have l2: "pk_live w2 (pkrg fc)" "uk_live w2 (ukrg fc)" "pk_live w2 (pk_ext_registry p1)"
    "uk_live w2 (uk_ext_registry u1)"
    using l1 U1(6) [OF l1(2)] U1(5) U1(3) P1(3) by (simp_all add: pk_live_def)
  have l3: "pk_live w3 (pkrg fc)" "uk_live w3 (ukrg fc)" "pk_live w3 (pk_ext_registry p1)"
    "uk_live w3 (uk_ext_registry u1)"
    using l2 R(3,4) by simp_all
  have l4: "pk_live w4 (pkrg fc)" "uk_live w4 (ukrg fc)" "pk_live w4 (pk_ext_registry p1)"
    "uk_live w4 (uk_ext_registry u1)" "pk_live w4 (pk_ext_registry p2)"
    using P2(6) [OF l3(1)] P2(6) [OF l3(3)] l3(2,4) P2(5) P2(3) by (simp_all add: uk_live_def)
  have l5: "pk_live w5 (pkrg fc)" "uk_live w5 (ukrg fc)" "pk_live w5 (pk_ext_registry p1)"
    "uk_live w5 (uk_ext_registry u1)" "pk_live w5 (pk_ext_registry p2)"
    "uk_live w5 (uk_ext_registry u2)"
    using U2(6) [OF l4(2)] U2(6) [OF l4(4)] l4(1,3,5) U2(5) U2(3) by (simp_all add: pk_live_def)
  \<comment> \<open>the first packer and unpacker keep what they were given\<close>
  have "pk_entries w5 (pk_ext_registry p1) = pk_entries w4 (pk_ext_registry p1)"
    using U2(5) by (rule pk_entries_cong)
  also have "\<dots> = pk_entries w3 (pk_ext_registry p1)"
    using P2(6) [OF l3(3)] by simp
  also have "\<dots> = pk_entries w2 (pk_ext_registry p1)"
    using R(5) [OF ne_p(1)] .
  also have "\<dots> = pk_entries w1 (pk_ext_registry p1)"
    using U1(5) by (rule pk_entries_cong)
  also have "\<dots> = pk_entries w (pkrg fc)"
    using P1(4) .
  finally have first_p: "pk_entries w5 (pk_ext_registry p1) = pk_entries w (pkrg fc)" .
  have "uk_entries w5 (uk_ext_registry u1) = uk_entries w4 (uk_ext_registry u1)"
    using U2(6) [OF l4(4)] by simp
  also have "\<dots> = uk_entries w3 (uk_ext_registry u1)"
    using P2(5) by (rule uk_entries_cong)
  also have "\<dots> = uk_entries w2 (uk_ext_registry u1)"
    using R(6) [OF ne_u(1)] .
  also have "\<dots> = uk_entries w1 (ukrg fc)"
    using U1(4) .
  also have "\<dots> = uk_entries w (ukrg fc)"
    using P1(5) by (rule uk_entries_cong)
  finally have first_u: "uk_entries w5 (uk_ext_registry u1) = uk_entries w (ukrg fc)" .
  \<comment> \<open>the second packer and unpacker hold the factory's entries after the registration\<close>
  have fc5: "pk_entries w5 (pkrg fc) = pk_entries w3 (pkrg fc)"
    "uk_entries w5 (ukrg fc) = uk_entries w3 (ukrg fc)"
    using pk_entries_cong [OF U2(5), of "pkrg fc"] P2(6) [OF l3(1)]
      U2(6) [OF l4(2)] uk_entries_cong [OF P2(5), of "ukrg fc"]
    by simp_all
  have second_p: "pk_entries w5 (pk_ext_registry p2) = pk_entries w3 (pkrg fc)"
    using pk_entries_cong [OF U2(5), of "pk_ext_registry p2"] P2(4) by simp
  have second_u: "uk_entries w5 (uk_ext_registry u2) = uk_entries w3 (ukrg fc)"
    using U2(4) uk_entries_cong [OF P2(5), of "ukrg fc"] by simp
  from reg obtain n pp up where
    acc: "args_accepted argv" and num: "rb_num2int (argv ! 0) = Inr n"
    and rng: "- 128 \<le> n" "n \<le> 127" and cls: "rb_type (argv ! 1) = T_CLASS"
    and pp: "packer_proc_of argv = Inr pp" and up: "unpacker_proc_of argv = Inr up"
    by (rule register_type_success)
  note ent = register_type_entries [OF acc num rng cls pp up l2(1,2)]
  have w3: "w3 = snd (Factory_register_type argv (Some fc) w2)"
    using reg by simp
  have new: "to_integer (argv ! 0) = Some n"
    "map_of (pk_entries w3 (pkrg fc)) (argv ! 1) = Some (n, pp)"
    "map_of (uk_entries w3 (ukrg fc)) n = Some up"
    using num ent(2,3) w3 by (simp_all add: rb_num2int_Inr update_conv')
  have carried: "\<exists>n packer_proc unpacker_proc.
       to_integer (argv ! 0) = Some n \<and>
       packer_proc_of argv = Inr packer_proc \<and> unpacker_proc_of argv = Inr unpacker_proc \<and>
       map_of (pk_entries w5 (pk_ext_registry p2)) (argv ! 1) = Some (n, packer_proc) \<and>
       map_of (uk_entries w5 (uk_ext_registry u2)) n = Some unpacker_proc"
    using new pp up second_p second_u by auto
  show ?thesis
    using first_p first_u second_p second_u fc5 carried ne_p ne_u l5 by simp
qed

theorem snapshot_isolation_witness:
  "Factory_packer [] (Some fresh_factory) fresh_world =
     (Inr \<lparr>pk_ext_registry = 2\<rparr>, snap_world_1) \<and>
   Factory_unpacker [] (Some fresh_factory) snap_world_1 =
     (Inr \<lparr>uk_ext_registry = 2\<rparr>, snap_world_2) \<and>
   Factory_register_type [RInteger 1, Time_class] (Some fresh_factory) snap_world_2 =
     (Inr RNil, snap_world_3) \<and>
   Factory_packer [] (Some fresh_factory) snap_world_3 =
     (Inr \<lparr>pk_ext_registry = 4\<rparr>, snap_world_4) \<and>
   Factory_unpacker [] (Some fresh_factory) snap_world_4 =
     (Inr \<lparr>uk_ext_registry = 4\<rparr>, snap_world_5) \<and>
   pk_entries snap_world_5 2 = [] \<and>
   uk_entries snap_world_5 2 = [] \<and>
   pk_entries snap_world_5 4 = [Time_entry] \<and>
   uk_entries snap_world_5 4 = [code_1_entry] \<and>
   pk_entries snap_world_5 (pkrg fresh_factory) = [Time_entry] \<and>
   uk_entries snap_world_5 (ukrg fresh_factory) = [code_1_entry]"
proof -
  have live: "pk_live fresh_world (pkrg fresh_factory)" "uk_live fresh_world (ukrg fresh_factory)"
    by (simp_all add: pk_live_def uk_live_def sample_defs)
  have p1: "Factory_packer [] (Some fresh_factory) fresh_world =
     (Inr \<lparr>pk_ext_registry = 2\<rparr>, snap_world_1)"
    by (simp add: Factory_packer_result pk_entries_def sample_defs run_defs)
  have u1: "Factory_unpacker [] (Some fresh_factory) snap_world_1 =
     (Inr \<lparr>uk_ext_registry = 2\<rparr>, snap_world_2)"
    by (simp add: Factory_unpacker_result uk_entries_def sample_defs run_defs)
  have reg: "Factory_register_type [RInteger 1, Time_class] (Some fresh_factory) snap_world_2 =
     (Inr RNil, snap_world_3)"
    by (simp add: eval_defs run_defs)
  have p2: "Factory_packer [] (Some fresh_factory) snap_world_3 =
     (Inr \<lparr>pk_ext_registry = 4\<rparr>, snap_world_4)"
    by (simp add: Factory_packer_result pk_entries_def sample_defs run_defs)
  have u2: "Factory_unpacker [] (Some fresh_factory) snap_world_4 =
     (Inr \<lparr>uk_ext_registry = 4\<rparr>, snap_world_5)"
    by (simp add: Factory_unpacker_result uk_entries_def sample_defs run_defs)
  have start: "pk_entries fresh_world (pkrg fresh_factory) = []"
    "uk_entries fresh_world (ukrg fresh_factory) = []"
    by (simp_all add: pk_entries_def uk_entries_def sample_defs)
  have "pk_entries snap_world_5 (pkrg fresh_factory) = [Time_entry]"
    "uk_entries snap_world_5 (ukrg fresh_factory) = [code_1_entry]"
    by (simp_all add: pk_entries_def uk_entries_def sample_defs run_defs)
  then show ?thesis
    using p1 u1 reg p2 u2 start snapshot_isolation [OF live p1 u1 reg p2 u2]
    by simp
qed

text \<open>C8. Last write wins. On a factory whose registries are live and hold one entry per
  key, two successful registrations of the same code and the same class, with whatever
  hooks, leave exactly the world that the second registration alone leaves: nothing of
  the first one survives. The encode registry then has exactly one entry for the class,
  with the code and the packer hook of the second call, the decode registry has exactly
  one entry for the code, with the unpacker hook of the second call, and a packer and an
  unpacker made afterwards hold exactly these entries for the class and the code.\<close>

theorem last_write_wins:
  assumes live: "pk_live w (pkrg fc)" "uk_live w (ukrg fc)"
    and dist: "distinct (map fst (pk_entries w (pkrg fc)))"
      "distinct (map fst (uk_entries w (ukrg fc)))"
    and first: "Factory_register_type argv1 (Some fc) w = (Inr r1, w1)"
    and second: "Factory_register_type argv2 (Some fc) w1 = (Inr r2, w2)"
    and same: "argv2 ! 1 = argv1 ! 1" "to_integer (argv2 ! 0) = to_integer (argv1 ! 0)"
    and packer: "Factory_packer pargs (Some fc) w2 = (Inr p, w3)"
    and unpacker: "Factory_unpacker uargs (Some fc) w3 = (Inr u, w4)"
  shows
   "Factory_register_type argv2 (Some fc) w = (Inr r2, w2) \<and>
    (\<exists>n packer_proc unpacker_proc.
       to_integer (argv2 ! 0) = Some n \<and>
       packer_proc_of argv2 = Inr packer_proc \<and> unpacker_proc_of argv2 = Inr unpacker_proc \<and>
       filter (\<lambda>e. fst e = argv2 ! 1) (pk_entries w2 (pkrg fc)) =
         [(argv2 ! 1, n, packer_proc)] \<and>
       filter (\<lambda>e. fst e = n) (uk_entries w2 (ukrg fc)) = [(n, unpacker_proc)] \<and>
       filter (\<lambda>e. fst e = argv2 ! 1) (pk_entries w4 (pk_ext_registry p)) =
         [(argv2 ! 1, n, packer_proc)] \<and>
       filter (\<lambda>e. fst e = n) (uk_entries w4 (uk_ext_registry u)) = [(n, unpacker_proc)])"
proof -
  from first obtain n1 pp1 up1 where
    num1: "rb_num2int (argv1 ! 0) = Inr n1"
    and w1: "w1 = snd (msgpack_unpacker_ext_registry_put (ukrg fc) n1 up1
            (snd (msgpack_packer_ext_registry_put (pkrg fc) (argv1 ! 1) n1 pp1 w)))"
    by (rule register_type_success)
  from second obtain n pp up where
    acc: "args_accepted argv2" and num: "rb_num2int (argv2 ! 0) = Inr n"
    and rng: "- 128 \<le> n" "n \<le> 127" and cls: "rb_type (argv2 ! 1) = T_CLASS"
    and pp: "packer_proc_of argv2 = Inr pp" and up: "unpacker_proc_of argv2 = Inr up"
    and r2: "r2 = RNil"
    and w2: "w2 = snd (msgpack_unpacker_ext_registry_put (ukrg fc) n up
            (snd (msgpack_packer_ext_registry_put (pkrg fc) (argv2 ! 1) n pp w1)))"
    by (rule register_type_success)
  have n1: "n1 = n"
    using rb_num2int_Inr [OF num1] rb_num2int_Inr [OF num] same(2) by simp
  have absorbed: "w2 = snd (msgpack_unpacker_ext_registry_put (ukrg fc) n up
            (snd (msgpack_packer_ext_registry_put (pkrg fc) (argv2 ! 1) n pp w)))"
    unfolding w2 w1 n1 same(1) [symmetric]
    using live by (rule puts_absorb)
  have alone: "Factory_register_type argv2 (Some fc) w = (Inr r2, w2)"
    using register_type_checked [OF acc num rng cls, of fc w] pp up r2 absorbed by simp
  note ent = register_type_entries [OF acc num rng cls pp up live]
  have w2': "w2 = snd (Factory_register_type argv2 (Some fc) w)"
    using alone by simp
  have pk2: "filter (\<lambda>e. fst e = argv2 ! 1) (pk_entries w2 (pkrg fc)) = [(argv2 ! 1, n, pp)]"
    using ent(2) w2' dist(1) by (simp add: filter_update_distinct)
  have uk2: "filter (\<lambda>e. fst e = n) (uk_entries w2 (ukrg fc)) = [(n, up)]"
    using ent(3) w2' dist(2) by (simp add: filter_update_distinct)
  note P = Factory_packer_effect [OF packer]
  note U = Factory_unpacker_effect [OF unpacker]
  have "pk_entries w4 (pk_ext_registry p) = pk_entries w3 (pk_ext_registry p)"
    using U(5) by (rule pk_entries_cong)
  with P(4) have pk4: "pk_entries w4 (pk_ext_registry p) = pk_entries w2 (pkrg fc)"
    by simp
  have "uk_entries w3 (ukrg fc) = uk_entries w2 (ukrg fc)"
    using P(5) by (rule uk_entries_cong)
  with U(4) have uk4: "uk_entries w4 (uk_ext_registry u) = uk_entries w2 (ukrg fc)"
    by simp
  have "to_integer (argv2 ! 0) = Some n"
    using num by (rule rb_num2int_Inr)
  then have "\<exists>n packer_proc unpacker_proc.
       to_integer (argv2 ! 0) = Some n \<and>
       packer_proc_of argv2 = Inr packer_proc \<and> unpacker_proc_of argv2 = Inr unpacker_proc \<and>
       filter (\<lambda>e. fst e = argv2 ! 1) (pk_entries w2 (pkrg fc)) =
         [(argv2 ! 1, n, packer_proc)] \<and>
       filter (\<lambda>e. fst e = n) (uk_entries w2 (ukrg fc)) = [(n, unpacker_proc)] \<and>
       filter (\<lambda>e. fst e = argv2 ! 1) (pk_entries w4 (pk_ext_registry p)) =
         [(argv2 ! 1, n, packer_proc)] \<and>
       filter (\<lambda>e. fst e = n) (uk_entries w4 (uk_ext_registry u)) = [(n, unpacker_proc)]"
    using pp up pk2 uk2 pk4 uk4 by simp
  with alone show ?thesis by simp
qed

theorem last_write_wins_witness:
  "Factory_register_type [RInteger 1, Time_class, first_options] (Some fresh_factory)
     fresh_world = (Inr RNil, twice_world_1) \<and>
   Factory_register_type [RInteger 1, Time_class, second_options] (Some fresh_factory)
     twice_world_1 = (Inr RNil, twice_world_2) \<and>
   Factory_packer [] (Some fresh_factory) twice_world_2 =
     (Inr \<lparr>pk_ext_registry = 2\<rparr>, twice_world_3) \<and>
   Factory_unpacker [] (Some fresh_factory) twice_world_3 =
     (Inr \<lparr>uk_ext_registry = 2\<rparr>, twice_world_4) \<and>
   Factory_register_type [RInteger 1, Time_class, second_options] (Some fresh_factory)
     fresh_world = (Inr RNil, twice_world_2) \<and>
   pk_entries twice_world_2 (pkrg fresh_factory) = [(Time_class, 1, RProc 3)] \<and>
   uk_entries twice_world_2 (ukrg fresh_factory) = [(1, RMethod (RProc 4) ''call'')] \<and>
   pk_entries twice_world_4 2 = [(Time_class, 1, RProc 3)] \<and>
   uk_entries twice_world_4 2 = [(1, RMethod (RProc 4) ''call'')]"
proof -
  have live: "pk_live fresh_world (pkrg fresh_factory)" "uk_live fresh_world (ukrg fresh_factory)"
    by (simp_all add: pk_live_def uk_live_def sample_defs)
  have dist: "distinct (map fst (pk_entries fresh_world (pkrg fresh_factory)))"
    "distinct (map fst (uk_entries fresh_world (ukrg fresh_factory)))"
    by (simp_all add: pk_entries_def uk_entries_def sample_defs)
  have first: "Factory_register_type [RInteger 1, Time_class, first_options]
     (Some fresh_factory) fresh_world = (Inr RNil, twice_world_1)"
    by (simp add: eval_defs run_defs)
  have second: "Factory_register_type [RInteger 1, Time_class, second_options]
     (Some fresh_factory) twice_world_1 = (Inr RNil, twice_world_2)"
    by (simp add: eval_defs run_defs)
  have same: "[RInteger 1, Time_class, second_options] ! 1 =
      [RInteger 1, Time_class, first_options] ! 1"
    "to_integer ([RInteger 1, Time_class, second_options] ! 0) =
      to_integer ([RInteger 1, Time_class, first_options] ! 0)"
    by simp_all
  have packer: "Factory_packer [] (Some fresh_factory) twice_world_2 =
     (Inr \<lparr>pk_ext_registry = 2\<rparr>, twice_world_3)"
    by (simp add: Factory_packer_result pk_entries_def sample_defs run_defs)
  have unpacker: "Factory_unpacker [] (Some fresh_factory) twice_world_3 =
     (Inr \<lparr>uk_ext_registry = 2\<rparr>, twice_world_4)"
    by (simp add: Factory_unpacker_result uk_entries_def sample_defs run_defs)
  have "pk_entries twice_world_2 (pkrg fresh_factory) = [(Time_class, 1, RProc 3)]"
    "uk_entries twice_world_2 (ukrg fresh_factory) = [(1, RMethod (RProc 4) ''call'')]"
    "pk_entries twice_world_4 2 = [(Time_class, 1, RProc 3)]"
    "uk_entries twice_world_4 2 = [(1, RMethod (RProc 4) ''call'')]"
    by (simp_all add: pk_entries_def uk_entries_def sample_defs run_defs)
  then show ?thesis
    using first second packer unpacker
      last_write_wins [OF live dist first second same packer unpacker]
    by simp
qed

end
